theory Spec2Isabelle
  imports Main "HOL-Library.Sublist" "HOL-Library.Log_Nat" "HOL-Library.Code_Target_Numeral"
begin

section \<open>Data model\<close>

text \<open>
  A Python float, an IEEE 754 double: \<open>Float neg m e\<close> is \<open>m * 2 ^ e\<close> for a mantissa
  \<open>m \<ge> 0\<close>, negated when \<open>neg\<close> holds; the infinities and NaN have no such form.
\<close>

datatype pyfloat = Float bool int int | Infinity bool | NaN

text \<open>
  A decoded JSON value, as Python's \<^verbatim>\<open>json\<close> module builds it: \<^verbatim>\<open>None\<close>, \<^verbatim>\<open>bool\<close>,
  \<^verbatim>\<open>int\<close> (unbounded), \<^verbatim>\<open>float\<close>, \<^verbatim>\<open>str\<close>, \<^verbatim>\<open>list\<close> and \<^verbatim>\<open>dict\<close>. A dictionary is the
  list of its items in insertion order, each key once.
\<close>

datatype json =
    JNull
  | JBool bool
  | JInt int
  | JFloat pyfloat
  | JStr string
  | JArr "json list"
  | JObj "(string \<times> json) list"

text \<open>
  Exceptions. \<open>Exception\<close> and \<open>HTTPException\<close> are the two this program raises itself;
  \<open>TransportError\<close>, \<open>HTTPStatusError\<close> and \<open>JSONDecodeError\<close> come out of the HTTP client
  (each carries the text \<^verbatim>\<open>str(e)\<close> gives, the second also the status code); the others
  are raised by the Python runtime on ill-shaped values.
\<close>

datatype exn =
    Exception string
  | HTTPException nat string
  | TransportError string
  | HTTPStatusError nat string
  | JSONDecodeError string
  | AttributeError
  | TypeError
  | KeyError
  | ValueError
  | OverflowError
  | ZeroDivisionError

text \<open>
  What the single HTTP exchange of a request does: \<^verbatim>\<open>client.post\<close> raises,
  \<^verbatim>\<open>raise_for_status\<close> raises, \<^verbatim>\<open>response.json()\<close> raises, or the body of a
  success-status response is decoded.
\<close>

datatype upstream =
    TransportFailure string
  | ErrorStatus nat string
  | UndecodableBody string
  | Body json

text \<open>
  Library behaviour the program relies on and does not define: the text of exceptions
  that are not plain \<^verbatim>\<open>Exception(msg)\<close>, \<^verbatim>\<open>repr\<close> of a float, list or dictionary, \<^verbatim>\<open>int\<close> of a
  string (\<open>None\<close> for \<^verbatim>\<open>ValueError\<close>), \<^verbatim>\<open>json.dumps(_, indent=2)\<close>, the clock
  (\<^verbatim>\<open>datetime.utcnow().isoformat()\<close>), and the characters of a \<^verbatim>\<open>str\<close>, each as a \<^verbatim>\<open>str\<close>
  of its own: text is held here as a list of 8-bit \<open>char\<close>s, of which a character
  beyond ASCII takes several, while Python counts and iterates characters.
\<close>

record py_runtime =
  lib_str :: "exn \<Rightarrow> string"
  repr_value :: "json \<Rightarrow> string"
  int_of_str :: "string \<Rightarrow> int option"
  dumps :: "json \<Rightarrow> string"
  utcnow_isoformat :: string
  characters :: "string \<Rightarrow> string list"

section \<open>Python operations on decoded values\<close>

definition bindE :: "exn + 'a \<Rightarrow> ('a \<Rightarrow> exn + 'b) \<Rightarrow> exn + 'b" where
  "bindE m f = (case m of Inl e \<Rightarrow> Inl e | Inr v \<Rightarrow> f v)"

definition try_except :: "exn + 'a \<Rightarrow> (exn \<Rightarrow> exn + 'a) \<Rightarrow> exn + 'a" where
  "try_except body handler = (case body of Inl e \<Rightarrow> handler e | Inr v \<Rightarrow> Inr v)"

fun mapE :: "('a \<Rightarrow> exn + 'b) \<Rightarrow> 'a list \<Rightarrow> exn + 'b list" where
  "mapE f [] = Inr []"
| "mapE f (x # xs) = bindE (f x) (\<lambda>y. bindE (mapE f xs) (\<lambda>ys. Inr (y # ys)))"

text \<open>Truth value of an object, as \<^verbatim>\<open>if x:\<close> and \<^verbatim>\<open>and\<close> test it.\<close>

fun truthy :: "json \<Rightarrow> bool" where
  "truthy JNull = False"
| "truthy (JBool b) = b"
| "truthy (JInt n) = (n \<noteq> 0)"
| "truthy (JFloat (Float neg m e)) = (m \<noteq> 0)"
| "truthy (JFloat f) = True"
| "truthy (JStr s) = (s \<noteq> [])"
| "truthy (JArr xs) = (xs \<noteq> [])"
| "truthy (JObj kvs) = (kvs \<noteq> [])"

text \<open>\<^verbatim>\<open>key in x\<close> for a string key.\<close>

fun py_contains :: "json \<Rightarrow> string \<Rightarrow> exn + bool" where
  "py_contains (JObj kvs) key = Inr (key \<in> set (map fst kvs))"
| "py_contains (JArr xs) key = Inr (JStr key \<in> set xs)"
| "py_contains (JStr s) key = Inr (sublist key s)"
| "py_contains _ key = Inl TypeError"

text \<open>\<^verbatim>\<open>x[key]\<close> for a string key.\<close>

fun py_subscript :: "json \<Rightarrow> string \<Rightarrow> exn + json" where
  "py_subscript (JObj kvs) key = (case map_of kvs key of None \<Rightarrow> Inl KeyError | Some v \<Rightarrow> Inr v)"
| "py_subscript _ key = Inl TypeError"

text \<open>\<^verbatim>\<open>x.get(key, default)\<close>; only a dictionary has the method.\<close>

fun py_get :: "json \<Rightarrow> string \<Rightarrow> json \<Rightarrow> exn + json" where
  "py_get (JObj kvs) key dflt = Inr (case map_of kvs key of None \<Rightarrow> dflt | Some v \<Rightarrow> v)"
| "py_get _ key dflt = Inl AttributeError"

text \<open>Iteration (\<^verbatim>\<open>for x in v\<close>): a string yields its characters, a dictionary its keys.\<close>

fun py_iter :: "py_runtime \<Rightarrow> json \<Rightarrow> exn + json list" where
  "py_iter rt (JArr xs) = Inr xs"
| "py_iter rt (JStr s) = Inr (map JStr (characters rt s))"
| "py_iter rt (JObj kvs) = Inr (map (\<lambda>kv. JStr (fst kv)) kvs)"
| "py_iter rt v = Inl TypeError"

text \<open>\<^verbatim>\<open>len(v)\<close>: items of a list, characters of a string, keys of a dictionary.\<close>

fun py_len :: "py_runtime \<Rightarrow> json \<Rightarrow> exn + nat" where
  "py_len rt (JArr xs) = Inr (length xs)"
| "py_len rt (JStr s) = Inr (length (characters rt s))"
| "py_len rt (JObj kvs) = Inr (length kvs)"
| "py_len rt v = Inl TypeError"

text \<open>\<^verbatim>\<open>sep.join(xs)\<close>: every item has to be a string.\<close>

fun join :: "string \<Rightarrow> string list \<Rightarrow> string" where
  "join sep [] = []"
| "join sep [x] = x"
| "join sep (x # y # ys) = x @ sep @ join sep (y # ys)"

definition py_join :: "string \<Rightarrow> json list \<Rightarrow> exn + string" where
  "py_join sep xs =
     bindE (mapE (\<lambda>x. case x of JStr s \<Rightarrow> Inr s | _ \<Rightarrow> Inl TypeError) xs)
       (\<lambda>ss. Inr (join sep ss))"

text \<open>\<^verbatim>\<open>str(e)\<close> of an exception.\<close>

fun str_exn :: "py_runtime \<Rightarrow> exn \<Rightarrow> string" where
  "str_exn rt (Exception msg) = msg"
| "str_exn rt (TransportError msg) = msg"
| "str_exn rt (HTTPStatusError code msg) = msg"
| "str_exn rt (JSONDecodeError msg) = msg"
| "str_exn rt e = lib_str rt e"

section \<open>The request executor\<close>

text \<open>
  \<^verbatim>\<open>make_graphql_request\<close>, the same in both files from the \<^verbatim>\<open>post\<close> on. The query text
  and the variables only shape the request that is sent; \<open>up\<close> is what the exchange does.
\<close>

definition make_graphql_request :: "py_runtime \<Rightarrow> upstream \<Rightarrow> exn + json" where
  "make_graphql_request rt up =
     (case up of
        TransportFailure msg \<Rightarrow> Inl (TransportError msg)
      | ErrorStatus code msg \<Rightarrow> Inl (HTTPStatusError code msg)
      | UndecodableBody msg \<Rightarrow> Inl (JSONDecodeError msg)
      | Body response_data \<Rightarrow>
          bindE (py_contains response_data ''errors'') (\<lambda>present.
          bindE (if present
                 then bindE (py_subscript response_data ''errors'') (\<lambda>v. Inr (truthy v))
                 else Inr False) (\<lambda>failed.
          if failed then
            bindE (py_subscript response_data ''errors'') (\<lambda>errors.
            bindE (py_iter rt errors) (\<lambda>errs.
            bindE (mapE (\<lambda>err. py_get err ''message'' (JStr (repr_value rt err))) errs) (\<lambda>msgs.
            bindE (py_join ''; '' msgs) (\<lambda>error_details.
            Inl (Exception (''GraphQL API error: '' @ error_details))))))
          else py_get response_data ''data'' (JObj []))))"

section \<open>Numbers as text\<close>

definition digit_char :: "nat \<Rightarrow> char" where
  "digit_char n = ''0123456789'' ! n"

function str_nat :: "nat \<Rightarrow> string" where
  "str_nat n = (if n < 10 then [digit_char n] else str_nat (n div 10) @ [digit_char (n mod 10)])"
  by pat_completeness auto
termination
  by (relation "measure id") auto

declare str_nat.simps [simp del]

text \<open>\<^verbatim>\<open>str(k)\<close> of an integer.\<close>

definition str_int :: "int \<Rightarrow> string" where
  "str_int k = (if k < 0 then CHR ''-'' # str_nat (nat (- k)) else str_nat (nat k))"

text \<open>A replacement field \<^verbatim>\<open>{v}\<close> of an f-string: \<^verbatim>\<open>format(v, '')\<close>, which is \<^verbatim>\<open>str(v)\<close>.\<close>

fun fmt_value :: "py_runtime \<Rightarrow> json \<Rightarrow> string" where
  "fmt_value rt JNull = ''None''"
| "fmt_value rt (JBool b) = (if b then ''True'' else ''False'')"
| "fmt_value rt (JInt n) = str_int n"
| "fmt_value rt (JStr s) = s"
| "fmt_value rt v = repr_value rt v"

text \<open>\<^verbatim>\<open>int(v)\<close>; a float is cut towards zero.\<close>

fun py_int :: "py_runtime \<Rightarrow> json \<Rightarrow> exn + int" where
  "py_int rt (JInt n) = Inr n"
| "py_int rt (JBool b) = Inr (if b then 1 else 0)"
| "py_int rt (JFloat (Float neg m e)) =
     Inr (let t = (if 0 \<le> e then m * 2 ^ nat e else m div 2 ^ nat (- e))
          in if neg then - t else t)"
| "py_int rt (JFloat (Infinity neg)) = Inl OverflowError"
| "py_int rt (JFloat NaN) = Inl ValueError"
| "py_int rt (JStr s) = (case int_of_str rt s of None \<Rightarrow> Inl ValueError | Some n \<Rightarrow> Inr n)"
| "py_int rt v = Inl TypeError"

text \<open>
  The nearest integer to \<open>a / b\<close> for \<open>b > 0\<close>, a tie going to the even neighbour: the
  rounding of IEEE 754 arithmetic and of Python's float formatting.
\<close>

definition round_half_even :: "int \<Rightarrow> int \<Rightarrow> int" where
  "round_half_even a b =
     (let q = a div b; r = a mod b
      in if b < 2 * r \<or> (2 * r = b \<and> odd q) then q + 1 else q)"

text \<open>
  \<^verbatim>\<open>a / b\<close> on integers: the double nearest to the exact quotient (53 significant bits,
  exponent at least \<open>- 1074\<close>), \<^verbatim>\<open>OverflowError\<close> when that reaches \<open>2 ^ 1024\<close>.
\<close>

definition int_truediv :: "int \<Rightarrow> int \<Rightarrow> exn + pyfloat" where
  "int_truediv a b =
     (if b = 0 then Inl ZeroDivisionError
      else
        let neg = ((a < 0) \<noteq> (b < 0)); n = \<bar>a\<bar>; d = \<bar>b\<bar>
        in if n = 0 then Inr (Float neg 0 0)
           else
             let e0 = bitlen n - bitlen d;
                 e1 = (if n * 2 ^ nat (- e0) < d * 2 ^ nat e0 then e0 - 53 else e0 - 52);
                 e = max e1 (- 1074);
                 m = round_half_even (n * 2 ^ nat (- e)) (d * 2 ^ nat e)
             in if 2 ^ 1024 * 2 ^ nat (- e) \<le> m * 2 ^ nat e then Inl OverflowError
                else Inr (Float neg m e))"

text \<open>A count \<open>h\<close> of hundredths written with two decimals.\<close>

definition render_hundredths :: "int \<Rightarrow> string" where
  "render_hundredths h =
     str_nat (nat h div 100) @ ''.'' @ [digit_char (nat h mod 100 div 10), digit_char (nat h mod 10)]"

text \<open>The format specification \<^verbatim>\<open>:.2f\<close> applied to a float.\<close>

fun format_2f :: "pyfloat \<Rightarrow> string" where
  "format_2f (Float neg m e) =
     (if neg then ''-'' else []) @
     render_hundredths
       (if 0 \<le> e then 100 * m * 2 ^ nat e else round_half_even (100 * m) (2 ^ nat (- e)))"
| "format_2f (Infinity neg) = (if neg then ''-inf'' else ''inf'')"
| "format_2f NaN = ''nan''"

section \<open>The HTTP front end\<close>

text \<open>
  What a route handler hands to the framework: a dictionary (sent with status 200) or an
  explicit \<^verbatim>\<open>JSONResponse(status_code, content)\<close>.
\<close>

datatype http_reply = Returned json | JSONResponse nat json

definition health_check_http :: "py_runtime \<Rightarrow> upstream \<Rightarrow> exn + http_reply" where
  "health_check_http rt up =
     try_except
       (bindE (make_graphql_request rt up) (\<lambda>response_data.
        bindE (py_get response_data ''info'' (JObj [])) (\<lambda>info.
        bindE (py_get info ''machineId'' JNull) (\<lambda>machine_id.
        bindE (py_get response_data ''info'' (JObj [])) (\<lambda>info'.
        bindE (py_get info' ''time'' JNull) (\<lambda>time.
        Inr (Returned (JObj
          [(''status'', JStr ''healthy''),
           (''timestamp'', JStr (utcnow_isoformat rt)),
           (''server'', JStr ''Unraid MCP Server HTTP''),
           (''version'', JStr ''1.0.0''),
           (''api_connection'', JStr ''ok''),
           (''unraid_system'', JObj [(''machine_id'', machine_id), (''time'', time)])]))))))))
       (\<lambda>e. Inr (JSONResponse 503 (JObj
          [(''status'', JStr ''unhealthy''),
           (''timestamp'', JStr (utcnow_isoformat rt)),
           (''error'', JStr (str_exn rt e))])))"

text \<open>The three blocks that fill \<^verbatim>\<open>summary\<close> in \<^verbatim>\<open>get_system_info\<close>, each under its guard.\<close>

definition os_summary :: "py_runtime \<Rightarrow> json \<Rightarrow> exn + (string \<times> json) list" where
  "os_summary rt raw_info =
     bindE (py_get raw_info ''os'' JNull) (\<lambda>os_info.
     if truthy os_info then
       bindE (py_get os_info ''distro'' (JStr [])) (\<lambda>distro.
       bindE (py_get os_info ''release'' (JStr [])) (\<lambda>release.
       bindE (py_get os_info ''platform'' (JStr [])) (\<lambda>platform.
       bindE (py_get os_info ''hostname'' JNull) (\<lambda>hostname.
       bindE (py_get os_info ''uptime'' JNull) (\<lambda>uptime.
       Inr [(''os'', JStr (fmt_value rt distro @ '' '' @ fmt_value rt release @
                          '' ('' @ fmt_value rt platform @ '')'')),
            (''hostname'', hostname),
            (''uptime'', uptime)])))))
     else Inr [])"

definition cpu_summary :: "py_runtime \<Rightarrow> json \<Rightarrow> exn + (string \<times> json) list" where
  "cpu_summary rt raw_info =
     bindE (py_get raw_info ''cpu'' JNull) (\<lambda>cpu_info.
     if truthy cpu_info then
       bindE (py_get cpu_info ''manufacturer'' (JStr [])) (\<lambda>manufacturer.
       bindE (py_get cpu_info ''brand'' (JStr [])) (\<lambda>brand.
       bindE (py_get cpu_info ''cores'' JNull) (\<lambda>cores.
       bindE (py_get cpu_info ''threads'' JNull) (\<lambda>threads.
       Inr [(''cpu'', JStr (fmt_value rt manufacturer @ '' '' @ fmt_value rt brand @
                           '' ('' @ fmt_value rt cores @ '' cores, '' @
                           fmt_value rt threads @ '' threads)''))]))))
     else Inr [])"

definition versions_summary :: "json \<Rightarrow> exn + (string \<times> json) list" where
  "versions_summary raw_info =
     bindE (py_get raw_info ''versions'' JNull) (\<lambda>versions.
     if truthy versions then
       bindE (py_get versions ''unraid'' JNull) (\<lambda>unraid.
       Inr [(''unraid_version'', unraid)])
     else Inr [])"

definition get_system_info_http :: "py_runtime \<Rightarrow> upstream \<Rightarrow> exn + json" where
  "get_system_info_http rt up =
     try_except
       (bindE (make_graphql_request rt up) (\<lambda>response_data.
        bindE (py_get response_data ''info'' (JObj [])) (\<lambda>raw_info.
        if \<not> truthy raw_info then
          Inl (HTTPException 404 ''No system info returned from Unraid API'')
        else
          bindE (os_summary rt raw_info) (\<lambda>s_os.
          bindE (cpu_summary rt raw_info) (\<lambda>s_cpu.
          bindE (versions_summary raw_info) (\<lambda>s_versions.
          Inr (JObj [(''summary'', JObj (s_os @ s_cpu @ s_versions)),
                     (''details'', raw_info)])))))))
       (\<lambda>e. Inl (HTTPException 500
          (''Failed to retrieve system information: '' @ str_exn rt e)))"

text \<open>\<^verbatim>\<open>format_kb\<close>, the function local to \<^verbatim>\<open>get_array_status\<close>.\<close>

definition format_kb :: "py_runtime \<Rightarrow> json \<Rightarrow> exn + string" where
  "format_kb rt k0 =
     (if k0 = JNull then Inr ''N/A''
      else
        bindE (py_int rt k0) (\<lambda>k.
        if 1024 * 1024 * 1024 \<le> k then
          bindE (int_truediv k (1024 * 1024 * 1024)) (\<lambda>q. Inr (format_2f q @ '' TB''))
        else if 1024 * 1024 \<le> k then
          bindE (int_truediv k (1024 * 1024)) (\<lambda>q. Inr (format_2f q @ '' GB''))
        else if 1024 \<le> k then
          bindE (int_truediv k 1024) (\<lambda>q. Inr (format_2f q @ '' MB''))
        else Inr (str_int k @ '' KB'')))"

text \<open>The three fields every array summary starts with (the same text in both files).\<close>

definition array_summary :: "py_runtime \<Rightarrow> json \<Rightarrow> exn + (string \<times> json) list" where
  "array_summary rt raw_array_info =
     bindE (py_get raw_array_info ''state'' JNull) (\<lambda>state.
     bindE (py_get raw_array_info ''disks'' (JArr [])) (\<lambda>disks.
     bindE (py_len rt disks) (\<lambda>num_data_disks.
     bindE (py_get raw_array_info ''parities'' (JArr [])) (\<lambda>parities.
     bindE (py_len rt parities) (\<lambda>num_parity_disks.
     Inr [(''state'', state),
          (''num_data_disks'', JInt (int num_data_disks)),
          (''num_parity_disks'', JInt (int num_parity_disks))])))))"

definition capacity_summary :: "py_runtime \<Rightarrow> json \<Rightarrow> exn + (string \<times> json) list" where
  "capacity_summary rt raw_array_info =
     bindE (py_get raw_array_info ''capacity'' JNull) (\<lambda>capacity.
     if \<not> truthy capacity then Inr []
     else
       bindE (py_get capacity ''kilobytes'' JNull) (\<lambda>kb_cap.
       if \<not> truthy kb_cap then Inr []
       else
         bindE (py_get kb_cap ''total'' JNull) (\<lambda>total.
         bindE (format_kb rt total) (\<lambda>f_total.
         bindE (py_get kb_cap ''used'' JNull) (\<lambda>used.
         bindE (format_kb rt used) (\<lambda>f_used.
         bindE (py_get kb_cap ''free'' JNull) (\<lambda>free.
         bindE (format_kb rt free) (\<lambda>f_free.
         Inr [(''capacity'', JObj [(''total'', JStr f_total),
                                  (''used'', JStr f_used),
                                  (''free'', JStr f_free)])]))))))))"

definition get_array_status_http :: "py_runtime \<Rightarrow> upstream \<Rightarrow> exn + json" where
  "get_array_status_http rt up =
     try_except
       (bindE (make_graphql_request rt up) (\<lambda>response_data.
        bindE (py_get response_data ''array'' (JObj [])) (\<lambda>raw_array_info.
        if \<not> truthy raw_array_info then
          Inl (HTTPException 404 ''No array information returned from Unraid API'')
        else
          bindE (array_summary rt raw_array_info) (\<lambda>summary.
          bindE (capacity_summary rt raw_array_info) (\<lambda>capacity.
          Inr (JObj [(''summary'', JObj (summary @ capacity)),
                     (''details'', raw_array_info)]))))))
       (\<lambda>e. Inl (HTTPException 500 (''Failed to retrieve array status: '' @ str_exn rt e)))"

text \<open>\<^verbatim>\<open>len([c for c in containers if c.get("state") == s])\<close>.\<close>

definition count_state :: "py_runtime \<Rightarrow> json \<Rightarrow> string \<Rightarrow> exn + nat" where
  "count_state rt containers s =
     bindE (py_iter rt containers) (\<lambda>cs.
     bindE (mapE (\<lambda>c. py_get c ''state'' JNull) cs) (\<lambda>states.
     Inr (length (filter (\<lambda>v. v = JStr s) states))))"

definition list_docker_containers_http :: "py_runtime \<Rightarrow> upstream \<Rightarrow> exn + json" where
  "list_docker_containers_http rt up =
     try_except
       (bindE (make_graphql_request rt up) (\<lambda>response_data.
        bindE (py_get response_data ''docker'' JNull) (\<lambda>docker.
        if truthy docker then
          bindE (py_get docker ''containers'' (JArr [])) (\<lambda>containers.
          bindE (count_state rt containers ''running'') (\<lambda>running.
          bindE (count_state rt containers ''exited'') (\<lambda>stopped.
          bindE (py_len rt containers) (\<lambda>total.
          Inr (JObj [(''summary'', JObj [(''total'', JInt (int total)),
                                        (''running'', JInt (int running)),
                                        (''stopped'', JInt (int stopped))]),
                     (''containers'', containers)])))))
        else
          Inr (JObj [(''summary'', JObj [(''total'', JInt 0),
                                        (''running'', JInt 0),
                                        (''stopped'', JInt 0)]),
                     (''containers'', JArr [])]))))
       (\<lambda>e. Inl (HTTPException 500 (''Failed to list Docker containers: '' @ str_exn rt e)))"

section \<open>The tool-protocol front end\<close>

definition get_system_info_simple :: "py_runtime \<Rightarrow> upstream \<Rightarrow> exn + json" where
  "get_system_info_simple rt up =
     try_except
       (bindE (make_graphql_request rt up) (\<lambda>response_data.
        bindE (py_get response_data ''info'' (JObj [])) (\<lambda>raw_info.
        if \<not> truthy raw_info then
          Inl (Exception ''No system info returned from Unraid API'')
        else
          bindE (os_summary rt raw_info) (\<lambda>s_os.
          bindE (cpu_summary rt raw_info) (\<lambda>s_cpu.
          Inr (JObj [(''summary'', JObj (s_os @ s_cpu)),
                     (''details'', raw_info)]))))))
       (\<lambda>e. Inl (Exception (''Failed to retrieve system information: '' @ str_exn rt e)))"

definition get_array_status_simple :: "py_runtime \<Rightarrow> upstream \<Rightarrow> exn + json" where
  "get_array_status_simple rt up =
     try_except
       (bindE (make_graphql_request rt up) (\<lambda>response_data.
        bindE (py_get response_data ''array'' (JObj [])) (\<lambda>raw_array_info.
        if \<not> truthy raw_array_info then
          Inl (Exception ''No array information returned from Unraid API'')
        else
          bindE (array_summary rt raw_array_info) (\<lambda>summary.
          Inr (JObj [(''summary'', JObj summary),
                     (''details'', raw_array_info)])))))
       (\<lambda>e. Inl (Exception (''Failed to retrieve array status: '' @ str_exn rt e)))"

definition list_docker_containers_simple :: "py_runtime \<Rightarrow> upstream \<Rightarrow> exn + json" where
  "list_docker_containers_simple rt up =
     try_except
       (bindE (make_graphql_request rt up) (\<lambda>response_data.
        bindE (py_get response_data ''docker'' JNull) (\<lambda>docker.
        if truthy docker then py_get docker ''containers'' (JArr [])
        else Inr (JArr []))))
       (\<lambda>e. Inl (Exception (''Failed to list Docker containers: '' @ str_exn rt e)))"

definition health_check_simple :: "py_runtime \<Rightarrow> upstream \<Rightarrow> exn + json" where
  "health_check_simple rt up =
     try_except
       (bindE (make_graphql_request rt up) (\<lambda>response_data.
        bindE (py_get response_data ''info'' (JObj [])) (\<lambda>info.
        Inr (JObj [(''status'', JStr ''healthy''),
                   (''server'', JStr ''Unraid MCP Server''),
                   (''api_connection'', JStr ''ok''),
                   (''unraid_system'', info)]))))
       (\<lambda>e. Inr (JObj [(''status'', JStr ''unhealthy''),
                        (''error'', JStr (str_exn rt e))]))"

text \<open>\<^verbatim>\<open>TextContent(type=..., text=...)\<close>: the type tag, then the text.\<close>

datatype text_content = TextContent string string

text \<open>
  \<^verbatim>\<open>call_tool\<close>. The operation it dispatches to makes the one request of the call, whose
  outcome is \<open>up\<close>.
\<close>

definition call_tool :: "py_runtime \<Rightarrow> string \<Rightarrow> json \<Rightarrow> upstream \<Rightarrow> exn + text_content list" where
  "call_tool rt name arguments up =
     try_except
       (if name = ''get_system_info'' then
          bindE (get_system_info_simple rt up) (\<lambda>result.
          Inr [TextContent ''text'' (dumps rt result)])
        else if name = ''get_array_status'' then
          bindE (get_array_status_simple rt up) (\<lambda>result.
          Inr [TextContent ''text'' (dumps rt result)])
        else if name = ''list_docker_containers'' then
          bindE (list_docker_containers_simple rt up) (\<lambda>result.
          Inr [TextContent ''text'' (dumps rt result)])
        else if name = ''health_check'' then
          bindE (health_check_simple rt up) (\<lambda>result.
          Inr [TextContent ''text'' (dumps rt result)])
        else Inl (Exception (''Unknown tool: '' @ name)))
       (\<lambda>e. Inr [TextContent ''text'' (''Error: '' @ str_exn rt e)])"

section \<open>Vocabulary of the statements\<close>

text \<open>The value under a key of an object, if there is one.\<close>

fun field :: "json \<Rightarrow> string \<Rightarrow> json option" where
  "field (JObj kvs) key = map_of kvs key"
| "field v key = None"

text \<open>The value under a key of a dictionary, \<open>dflt\<close> when the key is absent.\<close>

definition get_or :: "json \<Rightarrow> (string \<times> json) list \<Rightarrow> string \<Rightarrow> json" where
  "get_or dflt kvs key = (case map_of kvs key of None \<Rightarrow> dflt | Some v \<Rightarrow> v)"

text \<open>A field as a summary line shows it: the empty string when the key is absent.\<close>

definition render_field :: "py_runtime \<Rightarrow> (string \<times> json) list \<Rightarrow> string \<Rightarrow> string" where
  "render_field rt kvs key = (case map_of kvs key of None \<Rightarrow> [] | Some v \<Rightarrow> fmt_value rt v)"

text \<open>
  What a guard \<^verbatim>\<open>if d.get(key):\<close> lets through to the block under it: the items of a
  non-empty object. An absent key, an empty object and any other value give nothing.
\<close>

definition guarded_object :: "(string \<times> json) list \<Rightarrow> string \<Rightarrow> (string \<times> json) list option" where
  "guarded_object kvs key =
     (case map_of kvs key of
        Some (JObj items) \<Rightarrow> if items = [] then None else Some items
      | _ \<Rightarrow> None)"

text \<open>The entry under a key is absent, an object, or a value that counts as false.\<close>

definition object_or_falsy :: "(string \<times> json) list \<Rightarrow> string \<Rightarrow> bool" where
  "object_or_falsy kvs key =
     (case map_of kvs key of
        None \<Rightarrow> True
      | Some (JObj items) \<Rightarrow> True
      | Some v \<Rightarrow> \<not> truthy v)"

text \<open>
  The summary entries that the \<open>os\<close>, \<open>cpu\<close> and \<open>versions\<close> entries of an \<open>info\<close>
  object account for, each on its own: none unless the entry is a non-empty object.
\<close>

definition spec_os_lines :: "py_runtime \<Rightarrow> (string \<times> json) list \<Rightarrow> (string \<times> json) list" where
  "spec_os_lines rt info =
     (case guarded_object info ''os'' of
        None \<Rightarrow> []
      | Some os \<Rightarrow>
          [(''os'', JStr (render_field rt os ''distro'' @ '' '' @
                         render_field rt os ''release'' @ '' ('' @
                         render_field rt os ''platform'' @ '')'')),
           (''hostname'', get_or JNull os ''hostname''),
           (''uptime'', get_or JNull os ''uptime'')])"

definition spec_cpu_lines :: "py_runtime \<Rightarrow> (string \<times> json) list \<Rightarrow> (string \<times> json) list" where
  "spec_cpu_lines rt info =
     (case guarded_object info ''cpu'' of
        None \<Rightarrow> []
      | Some cpu \<Rightarrow>
          [(''cpu'', JStr (render_field rt cpu ''manufacturer'' @ '' '' @
                          render_field rt cpu ''brand'' @ '' ('' @
                          fmt_value rt (get_or JNull cpu ''cores'') @ '' cores, '' @
                          fmt_value rt (get_or JNull cpu ''threads'') @ '' threads)''))])"

definition spec_version_lines :: "(string \<times> json) list \<Rightarrow> (string \<times> json) list" where
  "spec_version_lines info =
     (case guarded_object info ''versions'' of
        None \<Rightarrow> []
      | Some versions \<Rightarrow> [(''unraid_version'', get_or JNull versions ''unraid'')])"

text \<open>
  The quotient \<open>k / d\<close> written with two decimals: the nearest count of hundredths, a tie
  going to the even one.
\<close>

definition spec_two_decimals :: "int \<Rightarrow> int \<Rightarrow> string" where
  "spec_two_decimals k d = render_hundredths (round_half_even (100 * k) d)"

text \<open>The size-scaling rule for a kilobyte count, in the words of the specification.\<close>

definition spec_format_kb :: "int \<Rightarrow> string" where
  "spec_format_kb k =
     (if 1073741824 \<le> k then spec_two_decimals k 1073741824 @ '' TB''
      else if 1048576 \<le> k then spec_two_decimals k 1048576 @ '' GB''
      else if 1024 \<le> k then spec_two_decimals k 1024 @ '' MB''
      else str_int k @ '' KB'')"

section \<open>Example values\<close>

text \<open>
  A runtime to evaluate examples with: the text of an \<^verbatim>\<open>HTTPException\<close> is its status,
  a colon and its detail, and all text is ASCII, one \<open>char\<close> a character.
\<close>

definition example_runtime :: py_runtime where
  "example_runtime =
     \<lparr>lib_str = (\<lambda>e. case e of HTTPException code detail \<Rightarrow> str_nat code @ '': '' @ detail
                        | _ \<Rightarrow> ''error''),
      repr_value = (\<lambda>v. ''{}''), int_of_str = (\<lambda>s. None),
      dumps = (\<lambda>v. ''{}''), utcnow_isoformat = ''2024-01-01T00:00:00'',
      characters = map (\<lambda>c. [c])\<rparr>"

section \<open>Basic facts\<close>

lemma bindE_Inl [simp]: "bindE (Inl e) f = Inl e"
  by (simp add: bindE_def)

lemma bindE_Inr [simp]: "bindE (Inr v) f = f v"
  by (simp add: bindE_def)

lemma try_except_Inl [simp]: "try_except (Inl e) h = h e"
  by (simp add: try_except_def)

lemma try_except_Inr [simp]: "try_except (Inr v) h = Inr v"
  by (simp add: try_except_def)

lemma example_runtime_utcnow [simp]:
  "utcnow_isoformat example_runtime = ''2024-01-01T00:00:00''"
  by (simp add: example_runtime_def)

lemma example_runtime_characters [simp]:
  "characters example_runtime s = map (\<lambda>c. [c]) s"
  by (simp add: example_runtime_def)

lemma example_runtime_lib_str [simp]:
  "lib_str example_runtime (HTTPException code detail) = str_nat code @ '': '' @ detail"
  by (simp add: example_runtime_def)

lemma map_of_Some_key: "map_of kvs k = Some v \<Longrightarrow> k \<in> set (map fst kvs)"
  by (induction kvs) (auto split: if_splits)

lemma map_of_None_key: "map_of kvs k = None \<Longrightarrow> k \<notin> set (map fst kvs)"
  by (induction kvs) (auto split: if_splits)

section \<open>The request executor: success and GraphQL errors\<close>

text \<open>
  C7. A success-status response that is a JSON object whose \<open>errors\<close> entry is absent or
  is the empty array makes the request executor return the value of \<open>data\<close>, and the empty
  mapping when \<open>data\<close> is absent; an \<open>errors\<close> key holding an empty array is a success.
\<close>

theorem make_graphql_request_success:
  assumes "map_of resp ''errors'' = None \<or> map_of resp ''errors'' = Some (JArr [])"
  shows "make_graphql_request rt (Body (JObj resp)) =
           Inr (case map_of resp ''data'' of None \<Rightarrow> JObj [] | Some d \<Rightarrow> d)"
  using assms
proof
  assume "map_of resp ''errors'' = None"
  then have "''errors'' \<notin> set (map fst resp)" by (rule map_of_None_key)
  then show ?thesis by (simp add: make_graphql_request_def)
next
  assume h: "map_of resp ''errors'' = Some (JArr [])"
  then have "''errors'' \<in> set (map fst resp)" by (rule map_of_Some_key)
  with h show ?thesis by (simp add: make_graphql_request_def)
qed

theorem make_graphql_request_success_witness:
  "(map_of [(''errors'', JArr []), (''data'', JObj [(''info'', JNull)])] ''errors'' = None \<or>
    map_of [(''errors'', JArr []), (''data'', JObj [(''info'', JNull)])] ''errors'' = Some (JArr [])) \<and>
   make_graphql_request example_runtime
     (Body (JObj [(''errors'', JArr []), (''data'', JObj [(''info'', JNull)])])) =
   Inr (JObj [(''info'', JNull)]) \<and>
   (map_of [(''extensions'', JObj [])] ''errors'' = None \<or>
    map_of [(''extensions'', JObj [])] ''errors'' = Some (JArr [])) \<and>
   make_graphql_request example_runtime (Body (JObj [(''extensions'', JObj [])])) =
   Inr (JObj [])"
  using make_graphql_request_success
    [of "[(''errors'', JArr []), (''data'', JObj [(''info'', JNull)])]" example_runtime]
    make_graphql_request_success [of "[(''extensions'', JObj [])]" example_runtime]
  by simp

lemma mapE_messages:
  "list_all2 (\<lambda>err m. \<exists>kvs. err = JObj kvs \<and> map_of kvs ''message'' = Some (JStr m)) errs msgs \<Longrightarrow>
   mapE (\<lambda>err. py_get err ''message'' (JStr (repr_value rt err))) errs = Inr (map JStr msgs)"
  by (induction errs msgs rule: list_all2_induct) auto

lemma mapE_JStr:
  "mapE (\<lambda>x. case x of JStr s \<Rightarrow> Inr s | _ \<Rightarrow> Inl TypeError) (map JStr ss) = Inr ss"
  by (induction ss) auto

lemma py_join_strings: "py_join sep (map JStr ss) = Inr (join sep ss)"
  by (simp add: py_join_def mapE_JStr)

lemma make_graphql_request_errors:
  assumes "map_of resp ''errors'' = Some (JArr errs)" and "errs \<noteq> []"
    and "list_all2 (\<lambda>err m. \<exists>kvs. err = JObj kvs \<and> map_of kvs ''message'' = Some (JStr m)) errs msgs"
  shows "make_graphql_request rt (Body (JObj resp)) =
           Inl (Exception (''GraphQL API error: '' @ join ''; '' msgs))"
proof -
  have "''errors'' \<in> set (map fst resp)"
    using assms(1) by (rule map_of_Some_key)
  then show ?thesis
    using assms by (simp add: make_graphql_request_def mapE_messages py_join_strings)
qed

text \<open>
  C1. Let the response be an object whose \<open>errors\<close> entry is a non-empty array, each entry
  an object with a string \<open>message\<close> (\<open>msgs\<close>, in order). Whatever else the response
  holds, \<open>data\<close> included, the request executor raises \<^verbatim>\<open>Exception\<close> with the text
  \<^verbatim>\<open>GraphQL API error: \<close> followed by the messages joined by \<^verbatim>\<open>; \<close>. The failure reaches all
  four operations of both front ends: system info, array status and container listing
  raise with that text behind their own prefix (status 500 in the HTTP front end), and the
  health check reports it in its unhealthy record (status 503 in the HTTP front end).
\<close>

theorem graphql_errors_reach_every_operation:
  assumes "map_of resp ''errors'' = Some (JArr errs)" and "errs \<noteq> []"
    and "list_all2 (\<lambda>err m. \<exists>kvs. err = JObj kvs \<and> map_of kvs ''message'' = Some (JStr m)) errs msgs"
  shows "make_graphql_request rt (Body (JObj resp)) =
           Inl (Exception (''GraphQL API error: '' @ join ''; '' msgs)) \<and>
         get_system_info_http rt (Body (JObj resp)) =
           Inl (HTTPException 500 (''Failed to retrieve system information: '' @
                                   ''GraphQL API error: '' @ join ''; '' msgs)) \<and>
         get_array_status_http rt (Body (JObj resp)) =
           Inl (HTTPException 500 (''Failed to retrieve array status: '' @
                                   ''GraphQL API error: '' @ join ''; '' msgs)) \<and>
         list_docker_containers_http rt (Body (JObj resp)) =
           Inl (HTTPException 500 (''Failed to list Docker containers: '' @
                                   ''GraphQL API error: '' @ join ''; '' msgs)) \<and>
         health_check_http rt (Body (JObj resp)) =
           Inr (JSONResponse 503 (JObj
             [(''status'', JStr ''unhealthy''),
              (''timestamp'', JStr (utcnow_isoformat rt)),
              (''error'', JStr (''GraphQL API error: '' @ join ''; '' msgs))])) \<and>
         get_system_info_simple rt (Body (JObj resp)) =
           Inl (Exception (''Failed to retrieve system information: '' @
                           ''GraphQL API error: '' @ join ''; '' msgs)) \<and>
         get_array_status_simple rt (Body (JObj resp)) =
           Inl (Exception (''Failed to retrieve array status: '' @
                           ''GraphQL API error: '' @ join ''; '' msgs)) \<and>
         list_docker_containers_simple rt (Body (JObj resp)) =
           Inl (Exception (''Failed to list Docker containers: '' @
                           ''GraphQL API error: '' @ join ''; '' msgs)) \<and>
         health_check_simple rt (Body (JObj resp)) =
           Inr (JObj [(''status'', JStr ''unhealthy''),
                      (''error'', JStr (''GraphQL API error: '' @ join ''; '' msgs))])"
proof -
  note req = make_graphql_request_errors [OF assms, of rt]
  show ?thesis
    by (simp add: req get_system_info_http_def get_array_status_http_def
        list_docker_containers_http_def health_check_http_def get_system_info_simple_def
        get_array_status_simple_def list_docker_containers_simple_def health_check_simple_def)
qed

theorem graphql_errors_reach_every_operation_witness:
  "make_graphql_request example_runtime
     (Body (JObj [(''data'', JObj [(''info'', JObj [(''machineId'', JStr ''m'')])]),
                  (''errors'', JArr [JObj [(''message'', JStr ''x'')],
                                     JObj [(''message'', JStr ''y'')]])])) =
     Inl (Exception ''GraphQL API error: x; y'') \<and>
   get_system_info_http example_runtime
     (Body (JObj [(''data'', JObj [(''info'', JObj [(''machineId'', JStr ''m'')])]),
                  (''errors'', JArr [JObj [(''message'', JStr ''x'')],
                                     JObj [(''message'', JStr ''y'')]])])) =
     Inl (HTTPException 500 ''Failed to retrieve system information: GraphQL API error: x; y'') \<and>
   health_check_simple example_runtime
     (Body (JObj [(''data'', JObj [(''info'', JObj [(''machineId'', JStr ''m'')])]),
                  (''errors'', JArr [JObj [(''message'', JStr ''x'')],
                                     JObj [(''message'', JStr ''y'')]])])) =
     Inr (JObj [(''status'', JStr ''unhealthy''),
                (''error'', JStr ''GraphQL API error: x; y'')])"
  using graphql_errors_reach_every_operation
    [of "[(''data'', JObj [(''info'', JObj [(''machineId'', JStr ''m'')])]),
          (''errors'', JArr [JObj [(''message'', JStr ''x'')], JObj [(''message'', JStr ''y'')]])]"
        "[JObj [(''message'', JStr ''x'')], JObj [(''message'', JStr ''y'')]]"
        "[''x'', ''y'']" example_runtime]
  by simp

section \<open>The health check\<close>

text \<open>
  C6. Whatever exception \<open>e\<close> the request executor raises (a transport failure, an error
  status, a GraphQL error or any other), \<^verbatim>\<open>health_check\<close> returns instead of raising: an
  unhealthy record carrying \<^verbatim>\<open>str(e)\<close>, sent with status 503 by the HTTP front end. When
  the executor returns a mapping, the tool-protocol front end returns the healthy record
  with its server name and the \<open>info\<close> object under \<open>unraid_system\<close>; the HTTP front end
  (for \<open>info\<close> absent or an object) returns the healthy record with its server name and
  \<open>machineId\<close> and \<open>time\<close> under \<open>unraid_system\<close>. In no case does either raise.
\<close>

theorem health_check_never_raises:
  "(make_graphql_request rt up = Inl e \<longrightarrow>
      health_check_http rt up =
        Inr (JSONResponse 503 (JObj
          [(''status'', JStr ''unhealthy''),
           (''timestamp'', JStr (utcnow_isoformat rt)),
           (''error'', JStr (str_exn rt e))])) \<and>
      health_check_simple rt up =
        Inr (JObj [(''status'', JStr ''unhealthy''), (''error'', JStr (str_exn rt e))])) \<and>
   (make_graphql_request rt up = Inr (JObj d) \<longrightarrow>
      health_check_simple rt up =
        Inr (JObj [(''status'', JStr ''healthy''),
                   (''server'', JStr ''Unraid MCP Server''),
                   (''api_connection'', JStr ''ok''),
                   (''unraid_system'', case map_of d ''info'' of None \<Rightarrow> JObj [] | Some v \<Rightarrow> v)])) \<and>
   (make_graphql_request rt up = Inr (JObj d) \<and>
    (map_of d ''info'' = None \<and> i = [] \<or> map_of d ''info'' = Some (JObj i)) \<longrightarrow>
      health_check_http rt up =
        Inr (Returned (JObj
          [(''status'', JStr ''healthy''),
           (''timestamp'', JStr (utcnow_isoformat rt)),
           (''server'', JStr ''Unraid MCP Server HTTP''),
           (''version'', JStr ''1.0.0''),
           (''api_connection'', JStr ''ok''),
           (''unraid_system'',
              JObj [(''machine_id'', case map_of i ''machineId'' of None \<Rightarrow> JNull | Some v \<Rightarrow> v),
                    (''time'', case map_of i ''time'' of None \<Rightarrow> JNull | Some v \<Rightarrow> v)])]))) \<and>
   (\<exists>r. health_check_http rt up = Inr r) \<and>
   (\<exists>r. health_check_simple rt up = Inr r)"
proof -
  have a: "\<exists>r. health_check_http rt up = Inr r"
    unfolding health_check_http_def try_except_def by (simp split: sum.splits)
  have b: "\<exists>r. health_check_simple rt up = Inr r"
    unfolding health_check_simple_def try_except_def by (simp split: sum.splits)
  have c: "make_graphql_request rt up = Inr (JObj d) \<Longrightarrow>
           map_of d ''info'' = None \<and> i = [] \<or> map_of d ''info'' = Some (JObj i) \<Longrightarrow>
           health_check_http rt up =
             Inr (Returned (JObj
               [(''status'', JStr ''healthy''),
                (''timestamp'', JStr (utcnow_isoformat rt)),
                (''server'', JStr ''Unraid MCP Server HTTP''),
                (''version'', JStr ''1.0.0''),
                (''api_connection'', JStr ''ok''),
                (''unraid_system'',
                   JObj [(''machine_id'', case map_of i ''machineId'' of None \<Rightarrow> JNull | Some v \<Rightarrow> v),
                         (''time'', case map_of i ''time'' of None \<Rightarrow> JNull | Some v \<Rightarrow> v)])]))"
    by (auto simp: health_check_http_def)
  show ?thesis
    using a b c by (simp add: health_check_http_def health_check_simple_def)
qed

theorem health_check_never_raises_witness:
  "make_graphql_request example_runtime (TransportFailure ''timed out'') =
     Inl (TransportError ''timed out'') \<and>
   health_check_http example_runtime (TransportFailure ''timed out'') =
     Inr (JSONResponse 503 (JObj
       [(''status'', JStr ''unhealthy''),
        (''timestamp'', JStr ''2024-01-01T00:00:00''),
        (''error'', JStr ''timed out'')])) \<and>
   health_check_simple example_runtime (TransportFailure ''timed out'') =
     Inr (JObj [(''status'', JStr ''unhealthy''), (''error'', JStr ''timed out'')]) \<and>
   make_graphql_request example_runtime
     (Body (JObj [(''data'', JObj [(''info'',
        JObj [(''machineId'', JStr ''abc''), (''time'', JStr ''noon'')])])])) =
     Inr (JObj [(''info'', JObj [(''machineId'', JStr ''abc''), (''time'', JStr ''noon'')])]) \<and>
   health_check_simple example_runtime
     (Body (JObj [(''data'', JObj [(''info'',
        JObj [(''machineId'', JStr ''abc''), (''time'', JStr ''noon'')])])])) =
     Inr (JObj [(''status'', JStr ''healthy''),
                (''server'', JStr ''Unraid MCP Server''),
                (''api_connection'', JStr ''ok''),
                (''unraid_system'', JObj [(''machineId'', JStr ''abc''), (''time'', JStr ''noon'')])]) \<and>
   health_check_http example_runtime
     (Body (JObj [(''data'', JObj [(''info'',
        JObj [(''machineId'', JStr ''abc''), (''time'', JStr ''noon'')])])])) =
     Inr (Returned (JObj
       [(''status'', JStr ''healthy''),
        (''timestamp'', JStr ''2024-01-01T00:00:00''),
        (''server'', JStr ''Unraid MCP Server HTTP''),
        (''version'', JStr ''1.0.0''),
        (''api_connection'', JStr ''ok''),
        (''unraid_system'', JObj [(''machine_id'', JStr ''abc''), (''time'', JStr ''noon'')])]))"
proof -
  have f: "make_graphql_request example_runtime (TransportFailure ''timed out'') =
             Inl (TransportError ''timed out'')"
    by (simp add: make_graphql_request_def)
  have s: "make_graphql_request example_runtime
             (Body (JObj [(''data'', JObj [(''info'',
                JObj [(''machineId'', JStr ''abc''), (''time'', JStr ''noon'')])])])) =
           Inr (JObj [(''info'', JObj [(''machineId'', JStr ''abc''), (''time'', JStr ''noon'')])])"
    by (simp add: make_graphql_request_def)
  show ?thesis
    using f s
      health_check_never_raises
        [of example_runtime "TransportFailure ''timed out''" "TransportError ''timed out''"]
      health_check_never_raises
        [of example_runtime
            "Body (JObj [(''data'', JObj [(''info'',
               JObj [(''machineId'', JStr ''abc''), (''time'', JStr ''noon'')])])])"
            _
            "[(''info'', JObj [(''machineId'', JStr ''abc''), (''time'', JStr ''noon'')])]"
            "[(''machineId'', JStr ''abc''), (''time'', JStr ''noon'')]"]
    by simp
qed

section \<open>The tool dispatcher\<close>

text \<open>
  C5. For every tool name, argument mapping and upstream behaviour, \<^verbatim>\<open>call_tool\<close> returns
  one text content item and raises nothing. For a known name the text is the operation's
  result serialised by \<^verbatim>\<open>json.dumps(result, indent=2)\<close>, or \<^verbatim>\<open>Error: \<close> followed by the
  message when the operation raises; for any other name it is
  \<^verbatim>\<open>Error: Unknown tool: \<close> followed by the name.
\<close>

theorem call_tool_always_text:
  "call_tool rt name arguments up =
     Inr [TextContent ''text''
       (if name = ''get_system_info'' then
          (case get_system_info_simple rt up of
             Inr result \<Rightarrow> dumps rt result | Inl e \<Rightarrow> ''Error: '' @ str_exn rt e)
        else if name = ''get_array_status'' then
          (case get_array_status_simple rt up of
             Inr result \<Rightarrow> dumps rt result | Inl e \<Rightarrow> ''Error: '' @ str_exn rt e)
        else if name = ''list_docker_containers'' then
          (case list_docker_containers_simple rt up of
             Inr result \<Rightarrow> dumps rt result | Inl e \<Rightarrow> ''Error: '' @ str_exn rt e)
        else if name = ''health_check'' then
          (case health_check_simple rt up of
             Inr result \<Rightarrow> dumps rt result | Inl e \<Rightarrow> ''Error: '' @ str_exn rt e)
        else ''Error: Unknown tool: '' @ name)] \<and>
   call_tool rt ''nonexistent'' arguments up =
     Inr [TextContent ''text'' ''Error: Unknown tool: nonexistent'']"
  by (simp add: call_tool_def split: sum.splits)

section \<open>The container listing\<close>

lemma mapE_length: "mapE f xs = Inr ys \<Longrightarrow> length ys = length xs"
  by (induction xs arbitrary: ys) (auto simp: bindE_def split: sum.splits)

lemma py_iter_len: "py_iter rt v = Inr xs \<Longrightarrow> py_len rt v = Inr (length xs)"
  by (cases v) auto

lemma filter_disjoint_length:
  "(\<And>x. \<not> (P x \<and> Q x)) \<Longrightarrow> length (filter P xs) + length (filter Q xs) \<le> length xs"
  by (induction xs) auto

lemma mapE_states:
  "\<forall>c \<in> set cs. \<exists>kvs. c = JObj kvs \<Longrightarrow>
   mapE (\<lambda>c. py_get c ''state'' JNull) cs =
     Inr (map (\<lambda>c. case field c ''state'' of None \<Rightarrow> JNull | Some v \<Rightarrow> v) cs)"
  by (induction cs) auto

lemma count_state_objects:
  assumes "\<forall>c \<in> set cs. \<exists>kvs. c = JObj kvs"
  shows "count_state rt (JArr cs) s =
           Inr (length (filter (\<lambda>c. field c ''state'' = Some (JStr s)) cs))"
proof -
  have "filter (\<lambda>v. v = JStr s) (map (\<lambda>c. case field c ''state'' of None \<Rightarrow> JNull | Some v \<Rightarrow> v) cs) =
        map (\<lambda>c. case field c ''state'' of None \<Rightarrow> JNull | Some v \<Rightarrow> v)
          (filter (\<lambda>c. field c ''state'' = Some (JStr s)) cs)"
    by (induction cs) (auto split: option.splits)
  then show ?thesis
    using assms by (simp add: count_state_def mapE_states)
qed

lemma count_state_bound:
  assumes "count_state rt v ''running'' = Inr a" and "count_state rt v ''exited'' = Inr b"
    and "py_len rt v = Inr t"
  shows "a + b \<le> t"
proof -
  from assms(1) obtain cs states where cs: "py_iter rt v = Inr cs"
    and st: "mapE (\<lambda>c. py_get c ''state'' JNull) cs = Inr states"
    and a: "a = length (filter (\<lambda>x. x = JStr ''running'') states)"
    by (auto simp: count_state_def bindE_def split: sum.splits)
  from assms(2) cs st have b: "b = length (filter (\<lambda>x. x = JStr ''exited'') states)"
    by (auto simp: count_state_def)
  have "length states = t"
    using mapE_length [OF st] py_iter_len [OF cs] assms(3) by simp
  moreover have "a + b \<le> length states"
    unfolding a b by (rule filter_disjoint_length) auto
  ultimately show ?thesis by simp
qed

text \<open>
  C4. When the upstream data holds a \<open>docker\<close> object whose \<open>containers\<close> is a list \<open>cs\<close>
  of container objects, the HTTP front end returns the summary with \<open>total\<close> the number of
  containers, \<open>running\<close> the number whose \<open>state\<close> equals \<^verbatim>\<open>running\<close> and \<open>stopped\<close> the
  number whose \<open>state\<close> equals \<^verbatim>\<open>exited\<close>, next to the list itself. A container in any
  other state is in neither count: the two counts and the number of such containers add up
  to \<open>total\<close>. The states running, running, exited, paused give 4, 2 and 1.
\<close>

theorem docker_summary_counts:
  assumes "make_graphql_request rt up = Inr (JObj d)"
    and "map_of d ''docker'' = Some (JObj dk)"
    and "map_of dk ''containers'' = Some (JArr cs)"
    and "\<forall>c \<in> set cs. \<exists>kvs. c = JObj kvs"
  shows "list_docker_containers_http rt up =
           Inr (JObj
             [(''summary'', JObj
                [(''total'', JInt (int (length cs))),
                 (''running'', JInt (int (length
                    (filter (\<lambda>c. field c ''state'' = Some (JStr ''running'')) cs)))),
                 (''stopped'', JInt (int (length
                    (filter (\<lambda>c. field c ''state'' = Some (JStr ''exited'')) cs))))]),
              (''containers'', JArr cs)]) \<and>
         length (filter (\<lambda>c. field c ''state'' = Some (JStr ''running'')) cs) +
         length (filter (\<lambda>c. field c ''state'' = Some (JStr ''exited'')) cs) +
         length (filter (\<lambda>c. field c ''state'' \<noteq> Some (JStr ''running'') \<and>
                              field c ''state'' \<noteq> Some (JStr ''exited'')) cs) = length cs"
proof -
  have "dk \<noteq> []" using assms(3) by auto
  then have "list_docker_containers_http rt up =
           Inr (JObj
             [(''summary'', JObj
                [(''total'', JInt (int (length cs))),
                 (''running'', JInt (int (length
                    (filter (\<lambda>c. field c ''state'' = Some (JStr ''running'')) cs)))),
                 (''stopped'', JInt (int (length
                    (filter (\<lambda>c. field c ''state'' = Some (JStr ''exited'')) cs))))]),
              (''containers'', JArr cs)])"
    using assms by (simp add: list_docker_containers_http_def count_state_objects)
  moreover have "length (filter (\<lambda>c. field c ''state'' = Some (JStr ''running'')) cs) +
         length (filter (\<lambda>c. field c ''state'' = Some (JStr ''exited'')) cs) +
         length (filter (\<lambda>c. field c ''state'' \<noteq> Some (JStr ''running'') \<and>
                              field c ''state'' \<noteq> Some (JStr ''exited'')) cs) = length cs"
    by (induction cs) auto
  ultimately show ?thesis by simp
qed

theorem docker_summary_counts_witness:
  "list_docker_containers_http example_runtime
     (Body (JObj [(''data'', JObj [(''docker'', JObj [(''containers'', JArr
        [JObj [(''state'', JStr ''running'')], JObj [(''state'', JStr ''running'')],
         JObj [(''state'', JStr ''exited'')], JObj [(''state'', JStr ''paused'')]])])])])) =
   Inr (JObj
     [(''summary'', JObj [(''total'', JInt 4), (''running'', JInt 2), (''stopped'', JInt 1)]),
      (''containers'', JArr
        [JObj [(''state'', JStr ''running'')], JObj [(''state'', JStr ''running'')],
         JObj [(''state'', JStr ''exited'')], JObj [(''state'', JStr ''paused'')]])])"
proof -
  have r: "make_graphql_request example_runtime
     (Body (JObj [(''data'', JObj [(''docker'', JObj [(''containers'', JArr
        [JObj [(''state'', JStr ''running'')], JObj [(''state'', JStr ''running'')],
         JObj [(''state'', JStr ''exited'')], JObj [(''state'', JStr ''paused'')]])])])])) =
     Inr (JObj [(''docker'', JObj [(''containers'', JArr
        [JObj [(''state'', JStr ''running'')], JObj [(''state'', JStr ''running'')],
         JObj [(''state'', JStr ''exited'')], JObj [(''state'', JStr ''paused'')]])])])"
    by (simp add: make_graphql_request_def)
  show ?thesis
    using docker_summary_counts [OF r, of "[(''containers'', JArr
        [JObj [(''state'', JStr ''running'')], JObj [(''state'', JStr ''running'')],
         JObj [(''state'', JStr ''exited'')], JObj [(''state'', JStr ''paused'')]])]"
      "[JObj [(''state'', JStr ''running'')], JObj [(''state'', JStr ''running'')],
         JObj [(''state'', JStr ''exited'')], JObj [(''state'', JStr ''paused'')]]"]
    by simp
qed

text \<open>
  C10. Whenever the HTTP front end's container listing returns, its result is a summary
  of three integers next to the containers, with \<open>0 \<le> running\<close>, \<open>0 \<le> stopped\<close> and
  \<open>running + stopped \<le> total\<close>.
\<close>

theorem docker_summary_bounds:
  assumes "list_docker_containers_http rt up = Inr r"
  shows "\<exists>total running stopped containers.
           r = JObj [(''summary'', JObj [(''total'', JInt total),
                                        (''running'', JInt running),
                                        (''stopped'', JInt stopped)]),
                     (''containers'', containers)] \<and>
           0 \<le> running \<and> 0 \<le> stopped \<and> running + stopped \<le> total"
proof -
  from assms obtain response_data docker where
    body: "(if truthy docker then
          bindE (py_get docker ''containers'' (JArr [])) (\<lambda>containers.
          bindE (count_state rt containers ''running'') (\<lambda>running.
          bindE (count_state rt containers ''exited'') (\<lambda>stopped.
          bindE (py_len rt containers) (\<lambda>total.
          Inr (JObj [(''summary'', JObj [(''total'', JInt (int total)),
                                        (''running'', JInt (int running)),
                                        (''stopped'', JInt (int stopped))]),
                     (''containers'', containers)])))))
        else
          Inr (JObj [(''summary'', JObj [(''total'', JInt 0),
                                        (''running'', JInt 0),
                                        (''stopped'', JInt 0)]),
                     (''containers'', JArr [])])) = Inr r"
    by (auto simp: list_docker_containers_http_def try_except_def bindE_def split: sum.splits)
  show ?thesis
  proof (cases "truthy docker")
    case False
    with body show ?thesis by auto
  next
    case True
    with body obtain containers a b t where
      ca: "count_state rt containers ''running'' = Inr a"
      and cb: "count_state rt containers ''exited'' = Inr b"
      and ct: "py_len rt containers = Inr t"
      and r: "r = JObj [(''summary'', JObj [(''total'', JInt (int t)),
                                        (''running'', JInt (int a)),
                                        (''stopped'', JInt (int b))]),
                     (''containers'', containers)]"
      by (auto simp: bindE_def split: sum.splits)
    have "a + b \<le> t" using ca cb ct by (rule count_state_bound)
    with r show ?thesis by auto
  qed
qed

theorem docker_summary_bounds_witness:
  "list_docker_containers_http example_runtime
     (Body (JObj [(''data'', JObj [(''docker'', JObj [(''containers'', JArr
        [JObj [(''state'', JStr ''exited'')], JObj [(''state'', JStr ''created'')],
         JObj [(''state'', JStr ''running'')]])])])])) =
   Inr (JObj
     [(''summary'', JObj [(''total'', JInt 3), (''running'', JInt 1), (''stopped'', JInt 1)]),
      (''containers'', JArr
        [JObj [(''state'', JStr ''exited'')], JObj [(''state'', JStr ''created'')],
         JObj [(''state'', JStr ''running'')]])]) \<and>
   (\<exists>total running stopped containers.
      JObj
        [(''summary'', JObj [(''total'', JInt 3), (''running'', JInt 1), (''stopped'', JInt 1)]),
         (''containers'', JArr
           [JObj [(''state'', JStr ''exited'')], JObj [(''state'', JStr ''created'')],
            JObj [(''state'', JStr ''running'')]])] =
      JObj [(''summary'', JObj [(''total'', JInt total),
                               (''running'', JInt running),
                               (''stopped'', JInt stopped)]),
            (''containers'', containers)] \<and>
      0 \<le> running \<and> 0 \<le> stopped \<and> running + stopped \<le> total)"
proof -
  have r: "list_docker_containers_http example_runtime
     (Body (JObj [(''data'', JObj [(''docker'', JObj [(''containers'', JArr
        [JObj [(''state'', JStr ''exited'')], JObj [(''state'', JStr ''created'')],
         JObj [(''state'', JStr ''running'')]])])])])) =
   Inr (JObj
     [(''summary'', JObj [(''total'', JInt 3), (''running'', JInt 1), (''stopped'', JInt 1)]),
      (''containers'', JArr
        [JObj [(''state'', JStr ''exited'')], JObj [(''state'', JStr ''created'')],
         JObj [(''state'', JStr ''running'')]])])"
    by (simp add: list_docker_containers_http_def make_graphql_request_def count_state_def)
  show ?thesis
    using r docker_summary_bounds [OF r] by simp
qed

text \<open>
  A mapping without a \<open>docker\<close> entry is no failure: the HTTP front end returns the
  summary of zeros with an empty container list, the tool-protocol front end the empty
  list.
\<close>

lemma list_docker_containers_http_no_docker:
  assumes "make_graphql_request rt up = Inr (JObj d)" and "map_of d ''docker'' = None"
  shows "list_docker_containers_http rt up =
           Inr (JObj [(''summary'', JObj [(''total'', JInt 0), (''running'', JInt 0),
                                         (''stopped'', JInt 0)]),
                      (''containers'', JArr [])])"
  using assms by (simp add: list_docker_containers_http_def)

lemma list_docker_containers_simple_no_docker:
  assumes "make_graphql_request rt up = Inr (JObj d)" and "map_of d ''docker'' = None"
  shows "list_docker_containers_simple rt up = Inr (JArr [])"
  using assms by (simp add: list_docker_containers_simple_def)

section \<open>The system information\<close>

lemma get_system_info_http_no_info:
  assumes "make_graphql_request rt up = Inr (JObj d)"
    and "\<not> truthy (get_or (JObj []) d ''info'')"
  shows "get_system_info_http rt up =
     Inl (HTTPException 500 (''Failed to retrieve system information: '' @
       lib_str rt (HTTPException 404 ''No system info returned from Unraid API'')))"
  using assms by (simp add: get_system_info_http_def get_or_def)

lemma get_system_info_simple_no_info:
  assumes "make_graphql_request rt up = Inr (JObj d)"
    and "\<not> truthy (get_or (JObj []) d ''info'')"
  shows "get_system_info_simple rt up =
     Inl (Exception (''Failed to retrieve system information: '' @
                     ''No system info returned from Unraid API''))"
  using assms by (simp add: get_system_info_simple_def get_or_def)

lemma str_nat_404: "str_nat 404 = ''404''"
  by (simp add: str_nat.simps digit_char_def)

text \<open>
  C2. Let the request executor return a mapping. When its \<open>info\<close> entry is absent or
  empty (or any other value that counts as false), \<^verbatim>\<open>get_system_info\<close> fails with the
  not-found error: the HTTP front end raises
  \<^verbatim>\<open>HTTPException(404, "No system info returned from Unraid API")\<close>, which leaves the
  handler through its \<^verbatim>\<open>except\<close> clause as the detail of a status 500, behind the
  handler's prefix; the tool-protocol front end raises \<^verbatim>\<open>Exception\<close> with the same
  message behind the same prefix. When the \<open>docker\<close> entry is absent, the container
  listing does not fail: the HTTP front end returns the summary of zeros with an empty
  container list, the tool-protocol front end the empty list.
\<close>

theorem missing_info_fails_missing_docker_is_empty:
  assumes "make_graphql_request rt up = Inr (JObj d)"
  shows "(map_of d ''info'' = None \<or> (\<exists>v. map_of d ''info'' = Some v \<and> \<not> truthy v) \<longrightarrow>
            get_system_info_http rt up =
              Inl (HTTPException 500 (''Failed to retrieve system information: '' @
                lib_str rt (HTTPException 404 ''No system info returned from Unraid API''))) \<and>
            get_system_info_simple rt up =
              Inl (Exception (''Failed to retrieve system information: '' @
                              ''No system info returned from Unraid API''))) \<and>
         (map_of d ''docker'' = None \<longrightarrow>
            list_docker_containers_http rt up =
              Inr (JObj [(''summary'', JObj [(''total'', JInt 0), (''running'', JInt 0),
                                            (''stopped'', JInt 0)]),
                         (''containers'', JArr [])]) \<and>
            list_docker_containers_simple rt up = Inr (JArr []))"
proof -
  have "\<not> truthy (get_or (JObj []) d ''info'')"
    if "map_of d ''info'' = None \<or> (\<exists>v. map_of d ''info'' = Some v \<and> \<not> truthy v)"
    using that by (auto simp: get_or_def)
  then show ?thesis
    using get_system_info_http_no_info [OF assms] get_system_info_simple_no_info [OF assms]
      list_docker_containers_http_no_docker [OF assms]
      list_docker_containers_simple_no_docker [OF assms]
    by blast
qed

theorem missing_info_fails_missing_docker_is_empty_witness:
  "make_graphql_request example_runtime (Body (JObj [(''data'', JObj [])])) = Inr (JObj []) \<and>
   get_system_info_http example_runtime (Body (JObj [(''data'', JObj [])])) =
     Inl (HTTPException 500
       ''Failed to retrieve system information: 404: No system info returned from Unraid API'') \<and>
   get_system_info_simple example_runtime (Body (JObj [(''data'', JObj [])])) =
     Inl (Exception
       ''Failed to retrieve system information: No system info returned from Unraid API'') \<and>
   list_docker_containers_http example_runtime (Body (JObj [(''data'', JObj [])])) =
     Inr (JObj [(''summary'', JObj [(''total'', JInt 0), (''running'', JInt 0),
                                   (''stopped'', JInt 0)]),
                (''containers'', JArr [])]) \<and>
   list_docker_containers_simple example_runtime (Body (JObj [(''data'', JObj [])])) =
     Inr (JArr []) \<and>
   make_graphql_request example_runtime
     (Body (JObj [(''data'', JObj [(''info'', JObj []), (''array'', JNull)])])) =
     Inr (JObj [(''info'', JObj []), (''array'', JNull)]) \<and>
   get_system_info_http example_runtime
     (Body (JObj [(''data'', JObj [(''info'', JObj []), (''array'', JNull)])])) =
     Inl (HTTPException 500
       ''Failed to retrieve system information: 404: No system info returned from Unraid API'') \<and>
   get_system_info_simple example_runtime
     (Body (JObj [(''data'', JObj [(''info'', JObj []), (''array'', JNull)])])) =
     Inl (Exception
       ''Failed to retrieve system information: No system info returned from Unraid API'')"
proof -
  have a: "make_graphql_request example_runtime (Body (JObj [(''data'', JObj [])])) =
             Inr (JObj [])"
    by (simp add: make_graphql_request_def)
  have b: "make_graphql_request example_runtime
             (Body (JObj [(''data'', JObj [(''info'', JObj []), (''array'', JNull)])])) =
           Inr (JObj [(''info'', JObj []), (''array'', JNull)])"
    by (simp add: make_graphql_request_def)
  show ?thesis
    using a b missing_info_fails_missing_docker_is_empty [OF a]
      missing_info_fails_missing_docker_is_empty [OF b]
    by (simp add: str_nat_404)
qed

lemma os_summary_spec:
  assumes "object_or_falsy i ''os''"
  shows "os_summary rt (JObj i) = Inr (spec_os_lines rt i)"
proof (cases "map_of i ''os''")
  case None
  then show ?thesis
    by (simp add: os_summary_def spec_os_lines_def guarded_object_def)
next
  case (Some v)
  with assms show ?thesis
    by (cases v)
      (auto simp: os_summary_def spec_os_lines_def guarded_object_def object_or_falsy_def
        render_field_def get_or_def split: option.splits pyfloat.splits)
qed

lemma cpu_summary_spec:
  assumes "object_or_falsy i ''cpu''"
  shows "cpu_summary rt (JObj i) = Inr (spec_cpu_lines rt i)"
proof (cases "map_of i ''cpu''")
  case None
  then show ?thesis
    by (simp add: cpu_summary_def spec_cpu_lines_def guarded_object_def)
next
  case (Some v)
  with assms show ?thesis
    by (cases v)
      (auto simp: cpu_summary_def spec_cpu_lines_def guarded_object_def object_or_falsy_def
        render_field_def get_or_def split: option.splits pyfloat.splits)
qed

lemma versions_summary_spec:
  assumes "object_or_falsy i ''versions''"
  shows "versions_summary (JObj i) = Inr (spec_version_lines i)"
proof (cases "map_of i ''versions''")
  case None
  then show ?thesis
    by (simp add: versions_summary_def spec_version_lines_def guarded_object_def)
next
  case (Some v)
  with assms show ?thesis
    by (cases v)
      (auto simp: versions_summary_def spec_version_lines_def guarded_object_def
        object_or_falsy_def get_or_def split: option.splits pyfloat.splits)
qed

text \<open>
  C8, with the guards of the code. Let a successful response hold a non-empty \<open>info\<close>
  object whose \<open>os\<close> and \<open>cpu\<close> entries are each absent, false-valued or an object. The
  summary of both front ends is made of two parts that do not depend on each other. When
  \<open>os\<close> is a non-empty object the summary maps \<open>os\<close> to
  \<^verbatim>\<open>{distro} {release} ({platform})\<close>, an absent one of the three rendered as the empty
  string, and copies \<open>hostname\<close> and \<open>uptime\<close> (\<^verbatim>\<open>None\<close> when absent); otherwise it has
  none of these three entries. When \<open>cpu\<close> is a non-empty object the summary maps \<open>cpu\<close>
  to \<^verbatim>\<open>{manufacturer} {brand} ({cores} cores, {threads} threads)\<close>; otherwise it has no
  \<open>cpu\<close> entry. The HTTP front end adds \<open>unraid_version\<close> when \<open>versions\<close> is a
  non-empty object. The result is given by the entries of \<open>info\<close> alone.
\<close>

theorem system_info_summary:
  assumes "make_graphql_request rt up = Inr (JObj d)"
    and "map_of d ''info'' = Some (JObj i)" and "i \<noteq> []"
    and "object_or_falsy i ''os''" and "object_or_falsy i ''cpu''"
  shows "get_system_info_simple rt up =
           Inr (JObj [(''summary'', JObj (spec_os_lines rt i @ spec_cpu_lines rt i)),
                      (''details'', JObj i)]) \<and>
         (object_or_falsy i ''versions'' \<longrightarrow>
            get_system_info_http rt up =
              Inr (JObj [(''summary'',
                            JObj (spec_os_lines rt i @ spec_cpu_lines rt i @ spec_version_lines i)),
                         (''details'', JObj i)]))"
  using assms
  by (simp add: get_system_info_simple_def get_system_info_http_def
      os_summary_spec cpu_summary_spec versions_summary_spec)

lemma str_int_8: "str_int 8 = ''8''"
  by (simp add: str_int_def str_nat.simps digit_char_def)

lemma str_int_16: "str_int 16 = ''16''"
  by (simp add: str_int_def str_nat.simps digit_char_def)

theorem system_info_summary_witness:
  "get_system_info_simple example_runtime
     (Body (JObj [(''data'', JObj [(''info'', JObj
        [(''os'', JObj [(''distro'', JStr ''Unraid''), (''hostname'', JStr ''tower'')])])])])) =
   Inr (JObj
     [(''summary'', JObj
        [(''os'', JStr ''Unraid  ()''),
         (''hostname'', JStr ''tower''),
         (''uptime'', JNull)]),
      (''details'', JObj
        [(''os'', JObj [(''distro'', JStr ''Unraid''), (''hostname'', JStr ''tower'')])])]) \<and>
   get_system_info_http example_runtime
     (Body (JObj [(''data'', JObj [(''info'', JObj
        [(''os'', JObj [(''distro'', JStr ''Unraid''), (''hostname'', JStr ''tower'')])])])])) =
   Inr (JObj
     [(''summary'', JObj
        [(''os'', JStr ''Unraid  ()''),
         (''hostname'', JStr ''tower''),
         (''uptime'', JNull)]),
      (''details'', JObj
        [(''os'', JObj [(''distro'', JStr ''Unraid''), (''hostname'', JStr ''tower'')])])]) \<and>
   get_system_info_simple example_runtime
     (Body (JObj [(''data'', JObj [(''info'', JObj
        [(''cpu'', JObj [(''manufacturer'', JStr ''Intel''), (''brand'', JStr ''i7''),
                         (''cores'', JInt 8), (''threads'', JInt 16)]),
         (''versions'', JObj [(''unraid'', JStr ''6.12'')])])])])) =
   Inr (JObj
     [(''summary'', JObj [(''cpu'', JStr ''Intel i7 (8 cores, 16 threads)'')]),
      (''details'', JObj
        [(''cpu'', JObj [(''manufacturer'', JStr ''Intel''), (''brand'', JStr ''i7''),
                         (''cores'', JInt 8), (''threads'', JInt 16)]),
         (''versions'', JObj [(''unraid'', JStr ''6.12'')])])]) \<and>
   get_system_info_http example_runtime
     (Body (JObj [(''data'', JObj [(''info'', JObj
        [(''cpu'', JObj [(''manufacturer'', JStr ''Intel''), (''brand'', JStr ''i7''),
                         (''cores'', JInt 8), (''threads'', JInt 16)]),
         (''versions'', JObj [(''unraid'', JStr ''6.12'')])])])])) =
   Inr (JObj
     [(''summary'', JObj [(''cpu'', JStr ''Intel i7 (8 cores, 16 threads)''),
                         (''unraid_version'', JStr ''6.12'')]),
      (''details'', JObj
        [(''cpu'', JObj [(''manufacturer'', JStr ''Intel''), (''brand'', JStr ''i7''),
                         (''cores'', JInt 8), (''threads'', JInt 16)]),
         (''versions'', JObj [(''unraid'', JStr ''6.12'')])])])"
proof -
  have a: "make_graphql_request example_runtime
     (Body (JObj [(''data'', JObj [(''info'', JObj
        [(''os'', JObj [(''distro'', JStr ''Unraid''), (''hostname'', JStr ''tower'')])])])])) =
     Inr (JObj [(''info'', JObj
        [(''os'', JObj [(''distro'', JStr ''Unraid''), (''hostname'', JStr ''tower'')])])])"
    by (simp add: make_graphql_request_def)
  have b: "make_graphql_request example_runtime
     (Body (JObj [(''data'', JObj [(''info'', JObj
        [(''cpu'', JObj [(''manufacturer'', JStr ''Intel''), (''brand'', JStr ''i7''),
                         (''cores'', JInt 8), (''threads'', JInt 16)]),
         (''versions'', JObj [(''unraid'', JStr ''6.12'')])])])])) =
     Inr (JObj [(''info'', JObj
        [(''cpu'', JObj [(''manufacturer'', JStr ''Intel''), (''brand'', JStr ''i7''),
                         (''cores'', JInt 8), (''threads'', JInt 16)]),
         (''versions'', JObj [(''unraid'', JStr ''6.12'')])])])"
    by (simp add: make_graphql_request_def)
  have os_only: "get_system_info_simple example_runtime
     (Body (JObj [(''data'', JObj [(''info'', JObj
        [(''os'', JObj [(''distro'', JStr ''Unraid''), (''hostname'', JStr ''tower'')])])])])) =
   Inr (JObj
     [(''summary'', JObj
        [(''os'', JStr ''Unraid  ()''),
         (''hostname'', JStr ''tower''),
         (''uptime'', JNull)]),
      (''details'', JObj
        [(''os'', JObj [(''distro'', JStr ''Unraid''), (''hostname'', JStr ''tower'')])])]) \<and>
   get_system_info_http example_runtime
     (Body (JObj [(''data'', JObj [(''info'', JObj
        [(''os'', JObj [(''distro'', JStr ''Unraid''), (''hostname'', JStr ''tower'')])])])])) =
   Inr (JObj
     [(''summary'', JObj
        [(''os'', JStr ''Unraid  ()''),
         (''hostname'', JStr ''tower''),
         (''uptime'', JNull)]),
      (''details'', JObj
        [(''os'', JObj [(''distro'', JStr ''Unraid''), (''hostname'', JStr ''tower'')])])])"
    using system_info_summary [OF a,
        of "[(''os'', JObj [(''distro'', JStr ''Unraid''), (''hostname'', JStr ''tower'')])]"]
    by (simp add: spec_os_lines_def spec_cpu_lines_def spec_version_lines_def
        guarded_object_def object_or_falsy_def render_field_def get_or_def)
  have cpu_only: "get_system_info_simple example_runtime
     (Body (JObj [(''data'', JObj [(''info'', JObj
        [(''cpu'', JObj [(''manufacturer'', JStr ''Intel''), (''brand'', JStr ''i7''),
                         (''cores'', JInt 8), (''threads'', JInt 16)]),
         (''versions'', JObj [(''unraid'', JStr ''6.12'')])])])])) =
   Inr (JObj
     [(''summary'', JObj [(''cpu'', JStr ''Intel i7 (8 cores, 16 threads)'')]),
      (''details'', JObj
        [(''cpu'', JObj [(''manufacturer'', JStr ''Intel''), (''brand'', JStr ''i7''),
                         (''cores'', JInt 8), (''threads'', JInt 16)]),
         (''versions'', JObj [(''unraid'', JStr ''6.12'')])])]) \<and>
   get_system_info_http example_runtime
     (Body (JObj [(''data'', JObj [(''info'', JObj
        [(''cpu'', JObj [(''manufacturer'', JStr ''Intel''), (''brand'', JStr ''i7''),
                         (''cores'', JInt 8), (''threads'', JInt 16)]),
         (''versions'', JObj [(''unraid'', JStr ''6.12'')])])])])) =
   Inr (JObj
     [(''summary'', JObj [(''cpu'', JStr ''Intel i7 (8 cores, 16 threads)''),
                         (''unraid_version'', JStr ''6.12'')]),
      (''details'', JObj
        [(''cpu'', JObj [(''manufacturer'', JStr ''Intel''), (''brand'', JStr ''i7''),
                         (''cores'', JInt 8), (''threads'', JInt 16)]),
         (''versions'', JObj [(''unraid'', JStr ''6.12'')])])])"
    using system_info_summary [OF b,
        of "[(''cpu'', JObj [(''manufacturer'', JStr ''Intel''), (''brand'', JStr ''i7''),
                             (''cores'', JInt 8), (''threads'', JInt 16)]),
             (''versions'', JObj [(''unraid'', JStr ''6.12'')])]"]
    by (simp add: spec_os_lines_def spec_cpu_lines_def spec_version_lines_def
        guarded_object_def object_or_falsy_def render_field_def get_or_def
        str_int_8 str_int_16)
  show ?thesis
    using os_only cpu_only by simp
qed

text \<open>
  C8 without the guards does not hold. A successful response whose \<open>info\<close> object has
  neither an \<open>os\<close> nor a \<open>cpu\<close> entry gets the empty summary from both front ends: no
  \<open>os\<close> line of blanks, no \<open>hostname\<close>, no \<open>uptime\<close>, no \<open>cpu\<close>.
\<close>

theorem system_info_summary_counterexample:
  "get_system_info_http example_runtime
     (Body (JObj [(''data'', JObj [(''info'', JObj [(''machineId'', JStr ''m'')])])])) =
   Inr (JObj [(''summary'', JObj []), (''details'', JObj [(''machineId'', JStr ''m'')])]) \<and>
   get_system_info_simple example_runtime
     (Body (JObj [(''data'', JObj [(''info'', JObj [(''machineId'', JStr ''m'')])])])) =
   Inr (JObj [(''summary'', JObj []), (''details'', JObj [(''machineId'', JStr ''m'')])])"
  by (simp add: get_system_info_http_def get_system_info_simple_def make_graphql_request_def
      os_summary_def cpu_summary_def versions_summary_def)

section \<open>The capacity formatter\<close>

lemma round_half_even_exact: "0 < b \<Longrightarrow> round_half_even (x * b) b = x"
  by (simp add: round_half_even_def)

lemma round_half_even_scale:
  assumes "0 < c"
  shows "round_half_even (a * c) (b * c) = round_half_even a b"
proof -
  have d: "(a * c) div (b * c) = a div b"
    using assms by simp
  have m: "(a * c) mod (b * c) = (a mod b) * c"
    using assms by simp
  have 1: "b * c < 2 * ((a mod b) * c) \<longleftrightarrow> b < 2 * (a mod b)"
  proof -
    have "b * c < 2 * ((a mod b) * c) \<longleftrightarrow> b * c < (2 * (a mod b)) * c"
      by (simp add: mult.assoc)
    also have "\<dots> \<longleftrightarrow> b < 2 * (a mod b)"
      using assms by (simp only: mult_less_cancel_right_pos)
    finally show ?thesis .
  qed
  have 2: "2 * ((a mod b) * c) = b * c \<longleftrightarrow> 2 * (a mod b) = b"
  proof -
    have "2 * ((a mod b) * c) = b * c \<longleftrightarrow> (2 * (a mod b)) * c = b * c"
      by (simp add: mult.assoc)
    also have "\<dots> \<longleftrightarrow> 2 * (a mod b) = b"
      using assms by simp
    finally show ?thesis .
  qed
  show ?thesis
    unfolding round_half_even_def Let_def d m 1 2 ..
qed

text \<open>The rounded count is within half a unit of the exact quotient.\<close>

lemma round_half_even_nearest:
  assumes "0 < b"
  shows "2 * \<bar>round_half_even a b * b - a\<bar> \<le> b"
proof -
  define q where "q = a div b"
  define r where "r = a mod b"
  have a: "a = q * b + r" by (simp add: q_def r_def)
  have r: "0 \<le> r" "r < b" using assms by (simp_all add: r_def)
  show ?thesis
  proof (cases "b < 2 * r \<or> (2 * r = b \<and> odd q)")
    case True
    then have "round_half_even a b = q + 1"
      by (simp add: round_half_even_def Let_def q_def r_def)
    then have "round_half_even a b * b - a = b - r"
      by (simp add: a algebra_simps)
    with True r show ?thesis by auto
  next
    case False
    then have "round_half_even a b = q"
      by (simp add: round_half_even_def Let_def q_def r_def)
    then have "round_half_even a b * b - a = - r"
      by (simp add: a)
    with False r show ?thesis by auto
  qed
qed

lemma bitlen_power2: "bitlen (2 ^ n) = int n + 1"
  using bitlen_pow2 [of 1 n] by (simp add: bitlen_alt_def)

lemma bitlen_le_53:
  assumes "0 < k" and "k < 2 ^ 53"
  shows "bitlen k \<le> 53"
proof (rule ccontr)
  assume "\<not> bitlen k \<le> 53"
  then have "53 \<le> nat (bitlen k - 1)" by simp
  then have "(2::int) ^ 53 \<le> 2 ^ nat (bitlen k - 1)"
    by (rule power_increasing) simp
  also have "\<dots> \<le> k" using bitlen_bounds [OF assms(1)] by simp
  finally show False using assms(2) by simp
qed

lemma bitlen_ge:
  assumes "2 ^ n \<le> k"
  shows "int n + 1 \<le> bitlen k"
proof (rule ccontr)
  assume "\<not> int n + 1 \<le> bitlen k"
  then have le: "nat (bitlen k) \<le> n" by simp
  have pos: "0 < k" using assms by (smt (verit) zero_less_power)
  have "k < 2 ^ nat (bitlen k)" using bitlen_bounds [OF pos] by simp
  also have "\<dots> \<le> 2 ^ n" using le by (rule power_increasing) simp
  finally show False using assms by simp
qed

text \<open>
  Below \<open>2 ^ 53\<close> the integer is a double as it stands, and dividing it by a power of two
  only moves the exponent: the quotient is exact.
\<close>

lemma int_truediv_power2:
  assumes "2 ^ n \<le> k" and "k < 2 ^ 53" and "0 < n"
  shows "\<exists>j. n \<le> j \<and> int_truediv k (2 ^ n) = Inr (Float False (k * 2 ^ (j - n)) (- int j))"
proof -
  have pos: "0 < k" using assms(1) by (smt (verit) zero_less_power)
  define e0 where "e0 = bitlen k - bitlen (2 ^ n)"
  define e1 where "e1 = (if k * 2 ^ nat (- e0) < 2 ^ n * 2 ^ nat e0 then e0 - 53 else e0 - 52)"
  define j where "j = nat (- e1)"
  have e0: "0 \<le> e0" "e0 \<le> 52 - int n"
    using bitlen_le_53 [OF pos assms(2)] bitlen_ge [OF assms(1)]
    by (simp_all add: e0_def bitlen_power2)
  have e1: "- 53 \<le> e1" "e1 \<le> - int n"
    using e0 by (simp_all add: e1_def)
  have j: "n \<le> j" "e1 = - int j" "nat e1 = 0" "nat (- e1) = j"
    using e1 assms(3) by (simp_all add: j_def)
  have mx: "max (- int j) (- 1074) = - int j" using e1 j(2) by simp
  have pw: "(2::int) ^ j = 2 ^ (j - n) * 2 ^ n"
    using j(1) by (simp add: power_add [symmetric])
  have m: "round_half_even (k * 2 ^ j) (2 ^ n) = k * 2 ^ (j - n)"
    unfolding pw mult.assoc [symmetric] by (rule round_half_even_exact) simp
  have "k * 2 ^ (j - n) < 2 ^ 53 * 2 ^ (j - n)"
    using assms(2) by simp
  also have "\<dots> \<le> 2 ^ 53 * (2::int) ^ j"
    by (simp add: power_increasing)
  also have "\<dots> \<le> 2 ^ 1024 * (2::int) ^ j"
    by (rule mult_right_mono) simp_all
  finally have no: "\<not> 2 ^ 1024 * (2::int) ^ j \<le> k * 2 ^ (j - n)" by simp
  have "int_truediv k (2 ^ n) = Inr (Float False (k * 2 ^ (j - n)) (- int j))"
    using pos no
    by (simp add: int_truediv_def Let_def e0_def [symmetric] e1_def [symmetric] j(2) mx m)
  with j(1) show ?thesis by blast
qed

lemma format_2f_power2:
  assumes "n \<le> j" and "0 < n"
  shows "format_2f (Float False (k * 2 ^ (j - n)) (- int j)) = spec_two_decimals k (2 ^ n)"
proof -
  have pw: "(2::int) ^ j = 2 ^ n * 2 ^ (j - n)"
    using assms(1) by (simp add: power_add [symmetric])
  have "round_half_even (100 * (k * 2 ^ (j - n))) (2 ^ j) =
        round_half_even ((100 * k) * 2 ^ (j - n)) (2 ^ n * 2 ^ (j - n))"
    by (simp only: pw mult.assoc)
  also have "\<dots> = round_half_even (100 * k) (2 ^ n)"
    by (rule round_half_even_scale) simp
  finally show ?thesis
    using assms by (simp add: spec_two_decimals_def)
qed

lemma truediv_format_power2:
  assumes "2 ^ n \<le> k" and "k < 2 ^ 53" and "0 < n"
  shows "bindE (int_truediv k (2 ^ n)) (\<lambda>q. Inr (format_2f q @ unit)) =
           Inr (spec_two_decimals k (2 ^ n) @ unit)"
proof -
  from int_truediv_power2 [OF assms] obtain j where
    "n \<le> j" "int_truediv k (2 ^ n) = Inr (Float False (k * 2 ^ (j - n)) (- int j))"
    by blast
  then show ?thesis
    using format_2f_power2 [of n j k] assms(3) by simp
qed

lemma format_kb_int:
  assumes "v \<noteq> JNull" and "py_int rt v = Inr k" and "k < 2 ^ 53"
  shows "format_kb rt v = Inr (spec_format_kb k)"
proof -
  consider (tb) "2 ^ 30 \<le> k" | (gb) "k < 2 ^ 30" "2 ^ 20 \<le> k"
    | (mb) "k < 2 ^ 20" "2 ^ 10 \<le> k" | (kb) "k < 2 ^ 10"
    by linarith
  then show ?thesis
  proof cases
    case tb
    then show ?thesis
      using truediv_format_power2 [of 30 k "'' TB''"] assms
      by (simp add: format_kb_def spec_format_kb_def)
  next
    case gb
    then show ?thesis
      using truediv_format_power2 [of 20 k "'' GB''"] assms
      by (simp add: format_kb_def spec_format_kb_def)
  next
    case mb
    then show ?thesis
      using truediv_format_power2 [of 10 k "'' MB''"] assms
      by (simp add: format_kb_def spec_format_kb_def)
  next
    case kb
    then show ?thesis
      using assms by (simp add: format_kb_def spec_format_kb_def)
  qed
qed

lemma capacity_summary_present:
  assumes "map_of a ''capacity'' = Some (JObj c)"
    and "map_of c ''kilobytes'' = Some (JObj kb)" and "kb \<noteq> []"
    and "format_kb rt (get_or JNull kb ''total'') = Inr f_total"
    and "format_kb rt (get_or JNull kb ''used'') = Inr f_used"
    and "format_kb rt (get_or JNull kb ''free'') = Inr f_free"
  shows "capacity_summary rt (JObj a) =
           Inr [(''capacity'', JObj [(''total'', JStr f_total),
                                    (''used'', JStr f_used),
                                    (''free'', JStr f_free)])]"
proof -
  have "c \<noteq> []" using assms(2) by auto
  then show ?thesis
    using assms by (simp add: capacity_summary_def get_or_def)
qed

lemma capacity_summary_absent:
  assumes "map_of a ''capacity'' = None \<or>
           (\<exists>c. map_of a ''capacity'' = Some (JObj c) \<and> map_of c ''kilobytes'' = None)"
  shows "capacity_summary rt (JObj a) = Inr []"
  using assms by (auto simp: capacity_summary_def)

lemma spec_format_kb_2tb: "spec_format_kb 2147483648 = ''2.00 TB''"
  by (simp add: spec_format_kb_def spec_two_decimals_def round_half_even_def
      render_hundredths_def str_nat.simps digit_char_def)

lemma spec_format_kb_1tb: "spec_format_kb 1073741824 = ''1.00 TB''"
  by (simp add: spec_format_kb_def spec_two_decimals_def round_half_even_def
      render_hundredths_def str_nat.simps digit_char_def)

lemma spec_format_kb_500: "spec_format_kb 500 = ''500 KB''"
  by (simp add: spec_format_kb_def str_int_def str_nat.simps digit_char_def)

text \<open>
  C3. \<^verbatim>\<open>format_kb\<close> maps \<^verbatim>\<open>None\<close> to \<^verbatim>\<open>N/A\<close>. A kilobyte count \<open>k\<close> below \<open>2 ^ 53\<close> (given
  as an integer, or as any value \<^verbatim>\<open>int\<close> turns into \<open>k\<close>) it maps by the size-scaling rule
  \<open>spec_format_kb\<close>: from 1073741824 on, \<open>k / 1073741824\<close> with two decimals and \<^verbatim>\<open> TB\<close>;
  else from 1048576 on, \<open>k / 1048576\<close> with two decimals and \<^verbatim>\<open> GB\<close>; else from 1024 on,
  \<open>k / 1024\<close> with two decimals and \<^verbatim>\<open> MB\<close>; else the integer and \<^verbatim>\<open> KB\<close>. The bound is
  where the float quotient of the code is the exact quotient. Each of total, used and
  free is formatted on its own: the capacity entry holds \<^verbatim>\<open>format_kb\<close> of each field.
\<close>

theorem format_kb_scaling:
  "format_kb rt JNull = Inr ''N/A'' \<and>
   (k < 2 ^ 53 \<longrightarrow> format_kb rt (JInt k) = Inr (spec_format_kb k)) \<and>
   (v \<noteq> JNull \<and> py_int rt v = Inr k \<and> k < 2 ^ 53 \<longrightarrow>
      format_kb rt v = Inr (spec_format_kb k)) \<and>
   (map_of a ''capacity'' = Some (JObj c) \<and> map_of c ''kilobytes'' = Some (JObj kb) \<and>
    kb \<noteq> [] \<and>
    format_kb rt (get_or JNull kb ''total'') = Inr f_total \<and>
    format_kb rt (get_or JNull kb ''used'') = Inr f_used \<and>
    format_kb rt (get_or JNull kb ''free'') = Inr f_free \<longrightarrow>
      capacity_summary rt (JObj a) =
        Inr [(''capacity'', JObj [(''total'', JStr f_total),
                                 (''used'', JStr f_used),
                                 (''free'', JStr f_free)])])"
  using format_kb_int [of v rt k] format_kb_int [of "JInt k" rt k]
    capacity_summary_present [of a c kb rt f_total f_used f_free]
  by (simp add: format_kb_def)

theorem format_kb_scaling_witness:
  "format_kb example_runtime JNull = Inr ''N/A'' \<and>
   format_kb example_runtime (JInt 500) = Inr ''500 KB'' \<and>
   format_kb example_runtime (JInt 2147483648) = Inr ''2.00 TB'' \<and>
   format_kb example_runtime (JInt 1073741824) = Inr ''1.00 TB'' \<and>
   capacity_summary example_runtime
     (JObj [(''capacity'', JObj [(''kilobytes'', JObj
        [(''total'', JInt 2147483648), (''used'', JInt 1073741824),
         (''free'', JInt 1073741824)])])]) =
     Inr [(''capacity'', JObj [(''total'', JStr ''2.00 TB''),
                              (''used'', JStr ''1.00 TB''),
                              (''free'', JStr ''1.00 TB'')])]"
proof -
  have a: "format_kb example_runtime (JInt 500) = Inr ''500 KB''"
    using format_kb_scaling [of example_runtime 500 "JInt 500"]
    by (simp add: spec_format_kb_500)
  have b: "format_kb example_runtime (JInt 2147483648) = Inr ''2.00 TB''"
    using format_kb_scaling [of example_runtime 2147483648 "JInt 2147483648"]
    by (simp add: spec_format_kb_2tb)
  have c: "format_kb example_runtime (JInt 1073741824) = Inr ''1.00 TB''"
    using format_kb_scaling [of example_runtime 1073741824 "JInt 1073741824"]
    by (simp add: spec_format_kb_1tb)
  have d: "capacity_summary example_runtime
     (JObj [(''capacity'', JObj [(''kilobytes'', JObj
        [(''total'', JInt 2147483648), (''used'', JInt 1073741824),
         (''free'', JInt 1073741824)])])]) =
     Inr [(''capacity'', JObj [(''total'', JStr ''2.00 TB''),
                              (''used'', JStr ''1.00 TB''),
                              (''free'', JStr ''1.00 TB'')])]"
    using b c format_kb_scaling [of example_runtime _ _
        "[(''capacity'', JObj [(''kilobytes'', JObj
           [(''total'', JInt 2147483648), (''used'', JInt 1073741824),
            (''free'', JInt 1073741824)])])]"
        "[(''kilobytes'', JObj
           [(''total'', JInt 2147483648), (''used'', JInt 1073741824),
            (''free'', JInt 1073741824)])]"
        "[(''total'', JInt 2147483648), (''used'', JInt 1073741824),
          (''free'', JInt 1073741824)]"
        "''2.00 TB''" "''1.00 TB''" "''1.00 TB''"]
    by (simp add: get_or_def)
  show ?thesis
    using a b c d format_kb_scaling [of example_runtime] by simp
qed

section \<open>The array status\<close>

lemma array_summary_fields:
  assumes "map_of a ''disks'' = None \<and> ds = [] \<or> map_of a ''disks'' = Some (JArr ds)"
    and "map_of a ''parities'' = None \<and> ps = [] \<or> map_of a ''parities'' = Some (JArr ps)"
  shows "array_summary rt (JObj a) =
           Inr [(''state'', get_or JNull a ''state''),
                (''num_data_disks'', JInt (int (length ds))),
                (''num_parity_disks'', JInt (int (length ps)))]"
  using assms by (auto simp: array_summary_def get_or_def)

lemma array_summary_keys:
  "array_summary rt v = Inr s \<Longrightarrow> map fst s = [''state'', ''num_data_disks'', ''num_parity_disks'']"
  by (auto simp: array_summary_def bindE_def split: sum.splits)

lemma get_array_status_simple_keys:
  assumes "get_array_status_simple rt up = Inr r"
  shows "\<exists>s details. r = JObj [(''summary'', JObj s), (''details'', details)] \<and>
           map fst s = [''state'', ''num_data_disks'', ''num_parity_disks'']"
  using assms
  by (auto simp: get_array_status_simple_def try_except_def bindE_def array_summary_keys
      split: sum.splits if_splits)

lemma format_kb_2tb: "format_kb rt (JInt 2147483648) = Inr ''2.00 TB''"
  using format_kb_int [of "JInt 2147483648" rt 2147483648] by (simp add: spec_format_kb_2tb)

lemma format_kb_1tb: "format_kb rt (JInt 1073741824) = Inr ''1.00 TB''"
  using format_kb_int [of "JInt 1073741824" rt 1073741824] by (simp add: spec_format_kb_1tb)

text \<open>
  C9. Give both front ends the same response, whose \<open>array\<close> is a non-empty object with
  \<open>disks\<close> and \<open>parities\<close> absent or lists. The tool-protocol front end returns the
  summary of \<open>state\<close> as it came, \<open>num_data_disks\<close> the number of \<open>disks\<close> and
  \<open>num_parity_disks\<close> the number of \<open>parities\<close>, and nothing else. The HTTP front end
  returns the same three entries: alone when \<open>capacity\<close> is absent or holds no
  \<open>kilobytes\<close>, and followed by a
  \<open>capacity\<close> entry of the three formatted figures when \<open>capacity\<close> holds a non-empty
  \<open>kilobytes\<close> object whose figures \<^verbatim>\<open>format_kb\<close> accepts. No summary of the tool-protocol
  front end, for any response, has a key beyond those three.
\<close>

theorem array_summaries_agree:
  assumes "make_graphql_request rt up = Inr (JObj d)"
    and "map_of d ''array'' = Some (JObj a)" and "a \<noteq> []"
    and "map_of a ''disks'' = None \<and> ds = [] \<or> map_of a ''disks'' = Some (JArr ds)"
    and "map_of a ''parities'' = None \<and> ps = [] \<or> map_of a ''parities'' = Some (JArr ps)"
  shows "get_array_status_simple rt up =
           Inr (JObj
             [(''summary'', JObj
                [(''state'', get_or JNull a ''state''),
                 (''num_data_disks'', JInt (int (length ds))),
                 (''num_parity_disks'', JInt (int (length ps)))]),
              (''details'', JObj a)]) \<and>
         (map_of a ''capacity'' = None \<or>
          (\<exists>c'. map_of a ''capacity'' = Some (JObj c') \<and> map_of c' ''kilobytes'' = None) \<longrightarrow>
            get_array_status_http rt up =
              Inr (JObj
                [(''summary'', JObj
                   [(''state'', get_or JNull a ''state''),
                    (''num_data_disks'', JInt (int (length ds))),
                    (''num_parity_disks'', JInt (int (length ps)))]),
                 (''details'', JObj a)])) \<and>
         (map_of a ''capacity'' = Some (JObj c) \<and> map_of c ''kilobytes'' = Some (JObj kb) \<and>
          kb \<noteq> [] \<and>
          format_kb rt (get_or JNull kb ''total'') = Inr f_total \<and>
          format_kb rt (get_or JNull kb ''used'') = Inr f_used \<and>
          format_kb rt (get_or JNull kb ''free'') = Inr f_free \<longrightarrow>
            get_array_status_http rt up =
              Inr (JObj
                [(''summary'', JObj
                   [(''state'', get_or JNull a ''state''),
                    (''num_data_disks'', JInt (int (length ds))),
                    (''num_parity_disks'', JInt (int (length ps))),
                    (''capacity'', JObj [(''total'', JStr f_total),
                                        (''used'', JStr f_used),
                                        (''free'', JStr f_free)])]),
                 (''details'', JObj a)])) \<and>
         (\<forall>up' r. get_array_status_simple rt up' = Inr r \<longrightarrow>
            (\<exists>s details. r = JObj [(''summary'', JObj s), (''details'', details)] \<and>
               map fst s = [''state'', ''num_data_disks'', ''num_parity_disks'']))"
proof -
  note three = array_summary_fields [OF assms(4,5)]
  have simple: "get_array_status_simple rt up =
           Inr (JObj
             [(''summary'', JObj
                [(''state'', get_or JNull a ''state''),
                 (''num_data_disks'', JInt (int (length ds))),
                 (''num_parity_disks'', JInt (int (length ps)))]),
              (''details'', JObj a)])"
    using assms(1-3) by (simp add: get_array_status_simple_def three)
  have http: "capacity_summary rt (JObj a) = Inr cap \<Longrightarrow>
         get_array_status_http rt up =
              Inr (JObj
                [(''summary'', JObj
                   ([(''state'', get_or JNull a ''state''),
                    (''num_data_disks'', JInt (int (length ds))),
                    (''num_parity_disks'', JInt (int (length ps)))] @ cap)),
                 (''details'', JObj a)])" for cap
    using assms(1-3) by (simp add: get_array_status_http_def three)
  note bare = http [OF capacity_summary_absent, simplified]
  note full = http [OF capacity_summary_present [of a c kb rt f_total f_used f_free], simplified]
  show ?thesis
    using simple bare full get_array_status_simple_keys [of rt] by blast
qed

theorem array_summaries_agree_witness:
  "get_array_status_simple example_runtime
     (Body (JObj [(''data'', JObj [(''array'', JObj
        [(''state'', JStr ''STARTED''),
         (''capacity'', JObj [(''kilobytes'', JObj
            [(''free'', JInt 1073741824), (''used'', JInt 1073741824),
             (''total'', JInt 2147483648)])]),
         (''disks'', JArr [JObj [(''id'', JStr ''d1'')], JObj [(''id'', JStr ''d2'')]]),
         (''parities'', JArr [JObj [(''id'', JStr ''p1'')]])])])])) =
   Inr (JObj
     [(''summary'', JObj
        [(''state'', JStr ''STARTED''),
         (''num_data_disks'', JInt 2),
         (''num_parity_disks'', JInt 1)]),
      (''details'', JObj
        [(''state'', JStr ''STARTED''),
         (''capacity'', JObj [(''kilobytes'', JObj
            [(''free'', JInt 1073741824), (''used'', JInt 1073741824),
             (''total'', JInt 2147483648)])]),
         (''disks'', JArr [JObj [(''id'', JStr ''d1'')], JObj [(''id'', JStr ''d2'')]]),
         (''parities'', JArr [JObj [(''id'', JStr ''p1'')]])])]) \<and>
   get_array_status_http example_runtime
     (Body (JObj [(''data'', JObj [(''array'', JObj
        [(''state'', JStr ''STARTED''),
         (''capacity'', JObj [(''kilobytes'', JObj
            [(''free'', JInt 1073741824), (''used'', JInt 1073741824),
             (''total'', JInt 2147483648)])]),
         (''disks'', JArr [JObj [(''id'', JStr ''d1'')], JObj [(''id'', JStr ''d2'')]]),
         (''parities'', JArr [JObj [(''id'', JStr ''p1'')]])])])])) =
   Inr (JObj
     [(''summary'', JObj
        [(''state'', JStr ''STARTED''),
         (''num_data_disks'', JInt 2),
         (''num_parity_disks'', JInt 1),
         (''capacity'', JObj [(''total'', JStr ''2.00 TB''),
                             (''used'', JStr ''1.00 TB''),
                             (''free'', JStr ''1.00 TB'')])]),
      (''details'', JObj
        [(''state'', JStr ''STARTED''),
         (''capacity'', JObj [(''kilobytes'', JObj
            [(''free'', JInt 1073741824), (''used'', JInt 1073741824),
             (''total'', JInt 2147483648)])]),
         (''disks'', JArr [JObj [(''id'', JStr ''d1'')], JObj [(''id'', JStr ''d2'')]]),
         (''parities'', JArr [JObj [(''id'', JStr ''p1'')]])])]) \<and>
   get_array_status_simple example_runtime
     (Body (JObj [(''data'', JObj [(''array'', JObj [(''state'', JStr ''STOPPED'')])])])) =
   Inr (JObj
     [(''summary'', JObj
        [(''state'', JStr ''STOPPED''),
         (''num_data_disks'', JInt 0),
         (''num_parity_disks'', JInt 0)]),
      (''details'', JObj [(''state'', JStr ''STOPPED'')])]) \<and>
   get_array_status_http example_runtime
     (Body (JObj [(''data'', JObj [(''array'', JObj [(''state'', JStr ''STOPPED'')])])])) =
   Inr (JObj
     [(''summary'', JObj
        [(''state'', JStr ''STOPPED''),
         (''num_data_disks'', JInt 0),
         (''num_parity_disks'', JInt 0)]),
      (''details'', JObj [(''state'', JStr ''STOPPED'')])])"
proof -
  have r: "make_graphql_request example_runtime
     (Body (JObj [(''data'', JObj [(''array'', JObj
        [(''state'', JStr ''STARTED''),
         (''capacity'', JObj [(''kilobytes'', JObj
            [(''free'', JInt 1073741824), (''used'', JInt 1073741824),
             (''total'', JInt 2147483648)])]),
         (''disks'', JArr [JObj [(''id'', JStr ''d1'')], JObj [(''id'', JStr ''d2'')]]),
         (''parities'', JArr [JObj [(''id'', JStr ''p1'')]])])])])) =
     Inr (JObj [(''array'', JObj
        [(''state'', JStr ''STARTED''),
         (''capacity'', JObj [(''kilobytes'', JObj
            [(''free'', JInt 1073741824), (''used'', JInt 1073741824),
             (''total'', JInt 2147483648)])]),
         (''disks'', JArr [JObj [(''id'', JStr ''d1'')], JObj [(''id'', JStr ''d2'')]]),
         (''parities'', JArr [JObj [(''id'', JStr ''p1'')]])])])"
    by (simp add: make_graphql_request_def)
  have s: "make_graphql_request example_runtime
     (Body (JObj [(''data'', JObj [(''array'', JObj [(''state'', JStr ''STOPPED'')])])])) =
     Inr (JObj [(''array'', JObj [(''state'', JStr ''STOPPED'')])])"
    by (simp add: make_graphql_request_def)
  have started: "get_array_status_simple example_runtime
     (Body (JObj [(''data'', JObj [(''array'', JObj
        [(''state'', JStr ''STARTED''),
         (''capacity'', JObj [(''kilobytes'', JObj
            [(''free'', JInt 1073741824), (''used'', JInt 1073741824),
             (''total'', JInt 2147483648)])]),
         (''disks'', JArr [JObj [(''id'', JStr ''d1'')], JObj [(''id'', JStr ''d2'')]]),
         (''parities'', JArr [JObj [(''id'', JStr ''p1'')]])])])])) =
   Inr (JObj
     [(''summary'', JObj
        [(''state'', JStr ''STARTED''),
         (''num_data_disks'', JInt 2),
         (''num_parity_disks'', JInt 1)]),
      (''details'', JObj
        [(''state'', JStr ''STARTED''),
         (''capacity'', JObj [(''kilobytes'', JObj
            [(''free'', JInt 1073741824), (''used'', JInt 1073741824),
             (''total'', JInt 2147483648)])]),
         (''disks'', JArr [JObj [(''id'', JStr ''d1'')], JObj [(''id'', JStr ''d2'')]]),
         (''parities'', JArr [JObj [(''id'', JStr ''p1'')]])])]) \<and>
   get_array_status_http example_runtime
     (Body (JObj [(''data'', JObj [(''array'', JObj
        [(''state'', JStr ''STARTED''),
         (''capacity'', JObj [(''kilobytes'', JObj
            [(''free'', JInt 1073741824), (''used'', JInt 1073741824),
             (''total'', JInt 2147483648)])]),
         (''disks'', JArr [JObj [(''id'', JStr ''d1'')], JObj [(''id'', JStr ''d2'')]]),
         (''parities'', JArr [JObj [(''id'', JStr ''p1'')]])])])])) =
   Inr (JObj
     [(''summary'', JObj
        [(''state'', JStr ''STARTED''),
         (''num_data_disks'', JInt 2),
         (''num_parity_disks'', JInt 1),
         (''capacity'', JObj [(''total'', JStr ''2.00 TB''),
                             (''used'', JStr ''1.00 TB''),
                             (''free'', JStr ''1.00 TB'')])]),
      (''details'', JObj
        [(''state'', JStr ''STARTED''),
         (''capacity'', JObj [(''kilobytes'', JObj
            [(''free'', JInt 1073741824), (''used'', JInt 1073741824),
             (''total'', JInt 2147483648)])]),
         (''disks'', JArr [JObj [(''id'', JStr ''d1'')], JObj [(''id'', JStr ''d2'')]]),
         (''parities'', JArr [JObj [(''id'', JStr ''p1'')]])])])"
    using array_summaries_agree [OF r,
        of "[(''state'', JStr ''STARTED''),
             (''capacity'', JObj [(''kilobytes'', JObj
                [(''free'', JInt 1073741824), (''used'', JInt 1073741824),
                 (''total'', JInt 2147483648)])]),
             (''disks'', JArr [JObj [(''id'', JStr ''d1'')], JObj [(''id'', JStr ''d2'')]]),
             (''parities'', JArr [JObj [(''id'', JStr ''p1'')]])]"
           "[JObj [(''id'', JStr ''d1'')], JObj [(''id'', JStr ''d2'')]]"
           "[JObj [(''id'', JStr ''p1'')]]"
           "[(''kilobytes'', JObj
                [(''free'', JInt 1073741824), (''used'', JInt 1073741824),
                 (''total'', JInt 2147483648)])]"
           "[(''free'', JInt 1073741824), (''used'', JInt 1073741824),
             (''total'', JInt 2147483648)]"
           "''2.00 TB''" "''1.00 TB''" "''1.00 TB''"]
    by (simp add: get_or_def format_kb_2tb format_kb_1tb)
  have stopped: "get_array_status_simple example_runtime
     (Body (JObj [(''data'', JObj [(''array'', JObj [(''state'', JStr ''STOPPED'')])])])) =
   Inr (JObj
     [(''summary'', JObj
        [(''state'', JStr ''STOPPED''),
         (''num_data_disks'', JInt 0),
         (''num_parity_disks'', JInt 0)]),
      (''details'', JObj [(''state'', JStr ''STOPPED'')])]) \<and>
   get_array_status_http example_runtime
     (Body (JObj [(''data'', JObj [(''array'', JObj [(''state'', JStr ''STOPPED'')])])])) =
   Inr (JObj
     [(''summary'', JObj
        [(''state'', JStr ''STOPPED''),
         (''num_data_disks'', JInt 0),
         (''num_parity_disks'', JInt 0)]),
      (''details'', JObj [(''state'', JStr ''STOPPED'')])])"
    using array_summaries_agree [OF s, of "[(''state'', JStr ''STOPPED'')]" "[]" "[]"]
    by (simp add: get_or_def)
  show ?thesis
    using started stopped by simp
qed

end
